theory Spec2Isabelle
  imports Main "HOL-Library.AList"
begin

section \<open>JavaScript values\<close>

text \<open>
  The server (\<^verbatim>\<open>src/server.js\<close>) receives JSON payloads and stores most of their fields
  as they come, so the model carries JSON values as JavaScript has them after parsing. A
  finite number is written \<open>Fin m e\<close> for \<open>m * 10^e\<close> (every binary64 value is such a
  number); the handlers do no arithmetic on numbers and never compare two of them: they
  obtain them from the built-ins, test them for falsiness and store them. A string is the
  list of its bytes.
\<close>

datatype jsnum = NaN | PosInf | NegInf | Fin int int

datatype jsval =
    JUndefined
  | JNull
  | JBool bool
  | JNum jsnum
  | JStr string
  | JArr "jsval list"
  | JObj "(string \<times> jsval) list"

datatype js_error = TypeError

text \<open>Truthiness (\<open>ToBoolean\<close>) and the operator \<^verbatim>\<open>a || b\<close>.\<close>

fun truthy :: "jsval \<Rightarrow> bool" where
  "truthy JUndefined = False"
| "truthy JNull = False"
| "truthy (JBool b) = b"
| "truthy (JNum NaN) = False"
| "truthy (JNum PosInf) = True"
| "truthy (JNum NegInf) = True"
| "truthy (JNum (Fin m e)) = (m \<noteq> 0)"
| "truthy (JStr s) = (s \<noteq> [])"
| "truthy (JArr xs) = True"
| "truthy (JObj fs) = True"

definition lor :: "jsval \<Rightarrow> jsval \<Rightarrow> jsval" where
  "lor a b = (if truthy a then a else b)"

definition num_lor :: "jsnum \<Rightarrow> jsnum \<Rightarrow> jsnum" where
  "num_lor x d = (if truthy (JNum x) then x else d)"

definition nullish :: "jsval \<Rightarrow> bool" where
  "nullish v = (v = JUndefined \<or> v = JNull)"

text \<open>
  Property read \<^verbatim>\<open>v.k\<close> of a value that is neither \<^verbatim>\<open>undefined\<close> nor \<^verbatim>\<open>null\<close>
  (on those the read throws a TypeError, which every handler below writes out as a branch
  of its own). An object is the list of its own properties, each key once. None of the
  property names the server reads is a built-in property of a string, a number, a boolean
  or an array, so the read gives \<^verbatim>\<open>undefined\<close> on those.
\<close>

fun get :: "jsval \<Rightarrow> string \<Rightarrow> jsval" where
  "get (JObj fs) k = (case map_of fs k of Some v \<Rightarrow> v | None \<Rightarrow> JUndefined)"
| "get v k = JUndefined"

section \<open>The built-ins the server calls\<close>

text \<open>
  Four built-ins of the language are not code of the server and are parameters of the
  model: \<open>Number::toString\<close>, \<^verbatim>\<open>parseFloat\<close> and \<^verbatim>\<open>parseInt\<close> (with no radix) on a string,
  and \<^verbatim>\<open>String.prototype.toUpperCase\<close>. What is proved with the runtime left open holds
  of JavaScript's own, with its binary64 rounding, its white space and its case mapping.
\<close>

record runtime =
  Number_toString :: "jsnum \<Rightarrow> string"
  parseFloat_string :: "string \<Rightarrow> jsnum"
  parseInt_string :: "string \<Rightarrow> jsnum"
  toUpperCase :: "string \<Rightarrow> string"

fun join_comma :: "string list \<Rightarrow> string" where
  "join_comma [] = []"
| "join_comma [x] = x"
| "join_comma (x # y # r) = x @ '','' @ join_comma (y # r)"

text \<open>
  \<open>ToString\<close>, as a template literal and the two parsers apply it. It throws a TypeError
  on an object that has an own property \<^verbatim>\<open>toString\<close>: a JSON value is never callable, and
  the inherited \<^verbatim>\<open>valueOf\<close> gives the object back. An object without one is
  \<^verbatim>\<open>[object Object]\<close>. An array joins the strings of its elements with commas, the empty
  string for \<^verbatim>\<open>undefined\<close> and \<^verbatim>\<open>null\<close>, and throws when an element does.
\<close>

fun ToString :: "runtime \<Rightarrow> jsval \<Rightarrow> js_error + string"
  and element_strings :: "runtime \<Rightarrow> jsval list \<Rightarrow> js_error + string list" where
  "ToString rt JUndefined = Inr ''undefined''"
| "ToString rt JNull = Inr ''null''"
| "ToString rt (JBool b) = Inr (if b then ''true'' else ''false'')"
| "ToString rt (JNum x) = Inr (Number_toString rt x)"
| "ToString rt (JStr s) = Inr s"
| "ToString rt (JArr xs) =
     (case element_strings rt xs of Inl e \<Rightarrow> Inl e | Inr ss \<Rightarrow> Inr (join_comma ss))"
| "ToString rt (JObj fs) =
     (if map_of fs ''toString'' \<noteq> None then Inl TypeError else Inr ''[object Object]'')"
| "element_strings rt [] = Inr []"
| "element_strings rt (x # xs) =
     (case (if x = JUndefined \<or> x = JNull then Inr [] else ToString rt x) of
        Inl e \<Rightarrow> Inl e
      | Inr s \<Rightarrow>
          (case element_strings rt xs of Inl e \<Rightarrow> Inl e | Inr ss \<Rightarrow> Inr (s # ss)))"

text \<open>\<^verbatim>\<open>parseFloat(v)\<close> and \<^verbatim>\<open>parseInt(v)\<close>: the string of \<open>v\<close> first, then the parser.\<close>

definition parseFloat :: "runtime \<Rightarrow> jsval \<Rightarrow> js_error + jsnum" where
  "parseFloat rt v =
     (case ToString rt v of Inl e \<Rightarrow> Inl e | Inr s \<Rightarrow> Inr (parseFloat_string rt s))"

definition parseInt :: "runtime \<Rightarrow> jsval \<Rightarrow> js_error + jsnum" where
  "parseInt rt v =
     (case ToString rt v of Inl e \<Rightarrow> Inl e | Inr s \<Rightarrow> Inr (parseInt_string rt s))"

text \<open>Whether the conversion of a value to a string throws.\<close>

definition throws :: "runtime \<Rightarrow> jsval \<Rightarrow> bool" where
  "throws rt v = isl (ToString rt v)"

section \<open>Data model\<close>

text \<open>
  One record for the alert objects of both kinds. A property that the object of one kind
  does not have (the camera fields of an SOS alert, \<^verbatim>\<open>userName\<close> and \<^verbatim>\<open>userPhone\<close> of a
  camera alert, \<^verbatim>\<open>respondedAt\<close> of an SOS alert before it is resolved) is \<open>JUndefined\<close>:
  that is what reading it gives, and serialisation leaves it out. The field \<^verbatim>\<open>id\<close> is
  written \<open>id'\<close>, since \<open>id\<close> is the identity function of HOL.
\<close>

record alert =
  id' :: string
  type :: string
  severity :: string
  place :: jsval
  alertType :: jsval
  cameraId :: jsval
  userName :: jsval
  userPhone :: jsval
  description :: jsval
  lat :: jsnum
  lng :: jsnum
  time :: jsval
  snippet :: jsval
  personCount :: jsval
  threatLevel :: jsval
  riskFactors :: jsval
  motionIntensity :: jsval
  lighting :: jsval
  brightnessLevel :: jsval
  behavior :: jsval
  status :: string
  receivedAt :: string
  respondedBy :: jsval
  respondedAt :: jsval

type_synonym socket_id = string

text \<open>A \<^verbatim>\<open>Date\<close> object is kept as its ISO rendering.\<close>

type_synonym date = string

record officer =
  name :: jsval
  lat :: jsval
  lng :: jsval
  unit :: jsval
  status :: string
  loginTime :: date

record tracking =
  alertId :: jsval
  alertLat :: jsnum
  alertLng :: jsnum
  alertType :: jsval
  officerLat :: jsval
  officerLng :: jsval
  startTime :: date
  status :: string

text \<open>
  The two \<^verbatim>\<open>Map\<close>s are keyed by socket id and keep insertion order: \<^verbatim>\<open>set\<close> replaces
  the value of a key that is present where it stands and appends a new key at the end.
\<close>

definition Map_set :: "'k \<Rightarrow> 'v \<Rightarrow> ('k \<times> 'v) list \<Rightarrow> ('k \<times> 'v) list" where
  "Map_set k v m = AList.update k v m"

definition Map_get :: "('k \<times> 'v) list \<Rightarrow> 'k \<Rightarrow> 'v option" where
  "Map_get m k = map_of m k"

definition Map_has :: "('k \<times> 'v) list \<Rightarrow> 'k \<Rightarrow> bool" where
  "Map_has m k = (map_of m k \<noteq> None)"

definition Map_delete :: "'k \<Rightarrow> ('k \<times> 'v) list \<Rightarrow> ('k \<times> 'v) list" where
  "Map_delete k m = AList.delete k m"

definition Map_values :: "('k \<times> 'v) list \<Rightarrow> 'v list" where
  "Map_values m = map snd m"

record state =
  cameraAlerts :: "alert list"
  sosAlerts :: "alert list"
  activeTracking :: "(socket_id \<times> tracking) list"
  connectedOfficers :: "(socket_id \<times> officer) list"

definition initial_state :: state where
  "initial_state =
     \<lparr>cameraAlerts = [], sosAlerts = [], activeTracking = [], connectedOfficers = []\<rparr>"

definition API_KEY :: string where
  "API_KEY = ''secure_key_123''"

definition MAX_ALERTS :: nat where
  "MAX_ALERTS = 200"

text \<open>The numbers that the source writes \<^verbatim>\<open>11.1085\<close> and \<^verbatim>\<open>77.3411\<close>.\<close>

definition fallback_lat :: jsnum where
  "fallback_lat = Fin 111085 (- 4)"

definition fallback_lng :: jsnum where
  "fallback_lng = Fin 773411 (- 4)"

subsection \<open>What a handler sends\<close>

datatype event =
    all_camera_alerts "alert list"
  | all_sos_alerts "alert list"
  | officers_updated "officer list"
  | tracking_started bool string jsval
  | tracking_update socket_id tracking
  | tracking_stopped socket_id
  | new_camera_alert alert
  | new_sos_alert alert
  | alert_resolved alert jsval
  | camera_alerts_cleared
  | sos_alerts_cleared
  | all_alerts_cleared

text \<open>\<open>ToAll\<close> is \<^verbatim>\<open>io.emit\<close> (every connection), \<open>ToSocket\<close> is \<^verbatim>\<open>socket.emit\<close>.\<close>

datatype target = ToAll | ToSocket socket_id

type_synonym emit = "target \<times> event"

datatype json_body =
    Failure string
  | FailureError js_error
  | AlertBody alert
  | ClearedBody nat string

datatype response = Response (status_code: nat) (json: json_body)

record request =
  apiKey :: jsval
  body :: jsval

text \<open>
  The readings of the clock and of the random generator that an ingestion makes, in the
  order it makes them: \<^verbatim>\<open>Date.now()\<close> and the random suffix for the id, the date for a
  missing \<^verbatim>\<open>time\<close>, the date for \<^verbatim>\<open>receivedAt\<close>.
\<close>

record clock =
  date_now :: string
  random_suffix :: string
  iso_time :: string
  iso_received :: string

text \<open>
  How a socket handler ends: it returns, or it throws and nothing catches the error. The
  state and the events that come with \<open>Threw\<close> are those at the moment of the throw.
\<close>

datatype completion = Returned | Threw js_error

section \<open>HTTP handlers\<close>

text \<open>Lines 178-179 and 222-223: \<^verbatim>\<open>unshift\<close>, then one \<^verbatim>\<open>pop\<close> when over the cap.\<close>

definition unshift_capped :: "alert \<Rightarrow> alert list \<Rightarrow> alert list" where
  "unshift_capped a xs =
     (let ys = a # xs in if length ys > MAX_ALERTS then butlast ys else ys)"

text \<open>
  The object literal of lines 153-176, given the severity string and the numbers that the
  five calls of \<^verbatim>\<open>parseFloat\<close> and \<^verbatim>\<open>parseInt\<close> returned.
\<close>

definition camera_alert ::
  "runtime \<Rightarrow> clock \<Rightarrow> jsval \<Rightarrow> string \<Rightarrow> jsnum \<Rightarrow> jsnum \<Rightarrow> jsnum \<Rightarrow> jsnum \<Rightarrow> jsnum \<Rightarrow> alert" where
  "camera_alert rt clk a sev la ln pc mi bl =
     \<lparr>id' = ''CAM-ALERT-'' @ date_now clk @ ''-'' @ random_suffix clk,
      type = ''camera'',
      severity = toUpperCase rt sev,
      place = lor (get a ''place'') (JStr ''Unknown Location''),
      alert.alertType = lor (get a ''type'') (JStr ''Safety Alert''),
      cameraId = lor (get a ''cameraId'') (JStr ''CAM-000''),
      userName = JUndefined,
      userPhone = JUndefined,
      description = lor (get a ''description'') (JStr ''No details''),
      alert.lat = num_lor la fallback_lat,
      alert.lng = num_lor ln fallback_lng,
      time = lor (get a ''time'') (JStr (iso_time clk)),
      snippet = lor (get a ''snippet'') JNull,
      personCount = JNum (num_lor pc (Fin 0 0)),
      threatLevel = lor (get a ''threatLevel'') (JStr ''unknown''),
      riskFactors = lor (get a ''riskFactors'') (JStr ''None''),
      motionIntensity = JNum (num_lor mi (Fin 0 0)),
      lighting = lor (get a ''lighting'') (JStr ''Unknown''),
      brightnessLevel = JNum (num_lor bl (Fin 0 0)),
      behavior = lor (lor (get a ''behavior'') (get a ''threatLevel'')) (JStr ''suspicious''),
      alert.status = ''active'',
      receivedAt = iso_received clk,
      respondedBy = JNull,
      respondedAt = JNull\<rparr>"

text \<open>
  The evaluation of that literal for a body that is neither undefined nor null. It throws
  when \<^verbatim>\<open>a.severity || 'MEDIUM'\<close> is not a string (\<^verbatim>\<open>.toUpperCase\<close> is then not a
  function) and when one of the five parsed fields cannot be converted to a string.
\<close>

definition build_camera_alert :: "runtime \<Rightarrow> clock \<Rightarrow> jsval \<Rightarrow> js_error + alert" where
  "build_camera_alert rt clk a =
     (case lor (get a ''severity'') (JStr ''MEDIUM'') of
        JStr sev \<Rightarrow>
          (case parseFloat rt (get a ''lat'') of Inl e \<Rightarrow> Inl e | Inr la \<Rightarrow>
          (case parseFloat rt (get a ''lng'') of Inl e \<Rightarrow> Inl e | Inr ln \<Rightarrow>
          (case parseInt rt (get a ''personCount'') of Inl e \<Rightarrow> Inl e | Inr pc \<Rightarrow>
          (case parseFloat rt (get a ''motionIntensity'') of Inl e \<Rightarrow> Inl e | Inr mi \<Rightarrow>
          (case parseInt rt (get a ''brightnessLevel'') of Inl e \<Rightarrow> Inl e | Inr bl \<Rightarrow>
             Inr (camera_alert rt clk a sev la ln pc mi bl))))))
      | _ \<Rightarrow> Inl TypeError)"

text \<open>
  \<^verbatim>\<open>POST /send-alert\<close>. Everything after the key check is inside the \<^verbatim>\<open>try\<close>, and every
  throw ends in the 500 answer of the \<^verbatim>\<open>catch\<close>. Before the store: \<^verbatim>\<open>a.place\<close> on a body
  that is undefined or null (line 151), and the literal. After the store and before
  \<^verbatim>\<open>io.emit\<close>: the template literals of lines 181 and 183, which convert \<^verbatim>\<open>alert.place\<close>
  and \<^verbatim>\<open>alert.threatLevel\<close> to strings (the severity is a string, and the two coordinates
  of line 184 are numbers).
\<close>

definition send_alert ::
  "runtime \<Rightarrow> clock \<Rightarrow> request \<Rightarrow> state \<Rightarrow> state \<times> response \<times> emit list" where
  "send_alert rt clk req s =
     (if apiKey req \<noteq> JStr API_KEY then
        (s, Response 403 (Failure ''Unauthorized: Invalid API key''), [])
      else
        let a = body req in
        if nullish a then (s, Response 500 (FailureError TypeError), [])
        else
          (case build_camera_alert rt clk a of
             Inl e \<Rightarrow> (s, Response 500 (FailureError e), [])
           | Inr alert \<Rightarrow>
               let s' = s\<lparr>cameraAlerts := unshift_capped alert (cameraAlerts s)\<rparr> in
               (case ToString rt (place alert) of
                  Inl e \<Rightarrow> (s', Response 500 (FailureError e), [])
                | Inr p \<Rightarrow>
                    (case ToString rt (threatLevel alert) of
                       Inl e \<Rightarrow> (s', Response 500 (FailureError e), [])
                     | Inr t \<Rightarrow>
                         (s', Response 200 (AlertBody alert),
                          [(ToAll, new_camera_alert alert)])))))"

text \<open>The object literal of lines 206-220, given the two parsed coordinates.\<close>

definition sos_alert :: "clock \<Rightarrow> jsval \<Rightarrow> jsnum \<Rightarrow> jsnum \<Rightarrow> alert" where
  "sos_alert clk a la ln =
     \<lparr>id' = ''SOS-ALERT-'' @ date_now clk @ ''-'' @ random_suffix clk,
      type = ''sos'',
      severity = ''CRITICAL'',
      place = lor (get a ''place'') (JStr ''Unknown Location''),
      alert.alertType = JStr ''SOS Emergency'',
      cameraId = JUndefined,
      userName = lor (get a ''userName'') (JStr ''Anonymous''),
      userPhone = lor (get a ''userPhone'') (JStr ''N/A''),
      description = lor (get a ''description'') (JStr ''SOS button pressed''),
      alert.lat = num_lor la fallback_lat,
      alert.lng = num_lor ln fallback_lng,
      time = lor (get a ''time'') (JStr (iso_time clk)),
      snippet = JUndefined,
      personCount = JUndefined,
      threatLevel = JUndefined,
      riskFactors = JUndefined,
      motionIntensity = JUndefined,
      lighting = JUndefined,
      brightnessLevel = JUndefined,
      behavior = JUndefined,
      alert.status = ''active'',
      receivedAt = iso_received clk,
      respondedBy = JUndefined,
      respondedAt = JUndefined\<rparr>"

definition build_sos_alert :: "runtime \<Rightarrow> clock \<Rightarrow> jsval \<Rightarrow> js_error + alert" where
  "build_sos_alert rt clk a =
     (case parseFloat rt (get a ''lat'') of Inl e \<Rightarrow> Inl e | Inr la \<Rightarrow>
     (case parseFloat rt (get a ''lng'') of Inl e \<Rightarrow> Inl e | Inr ln \<Rightarrow>
        Inr (sos_alert clk a la ln)))"

text \<open>
  \<^verbatim>\<open>POST /send-sos-alert\<close>. Before the store, the read of \<^verbatim>\<open>a.place\<close> and the two calls
  of \<^verbatim>\<open>parseFloat\<close> can throw; after it, the template literal of line 225, which converts
  \<^verbatim>\<open>alert.userName\<close>.
\<close>

definition send_sos_alert ::
  "runtime \<Rightarrow> clock \<Rightarrow> request \<Rightarrow> state \<Rightarrow> state \<times> response \<times> emit list" where
  "send_sos_alert rt clk req s =
     (if apiKey req \<noteq> JStr API_KEY then
        (s, Response 403 (Failure ''Unauthorized''), [])
      else
        let a = body req in
        if nullish a then (s, Response 500 (FailureError TypeError), [])
        else
          (case build_sos_alert rt clk a of
             Inl e \<Rightarrow> (s, Response 500 (FailureError e), [])
           | Inr alert \<Rightarrow>
               let s' = s\<lparr>sosAlerts := unshift_capped alert (sosAlerts s)\<rparr> in
               (case ToString rt (userName alert) of
                  Inl e \<Rightarrow> (s', Response 500 (FailureError e), [])
                | Inr u \<Rightarrow>
                    (s', Response 200 (AlertBody alert), [(ToAll, new_sos_alert alert)]))))"

fun findIndex :: "('a \<Rightarrow> bool) \<Rightarrow> 'a list \<Rightarrow> nat option" where
  "findIndex P [] = None"
| "findIndex P (x # xs) = (if P x then Some 0 else map_option Suc (findIndex P xs))"

text \<open>Line 240: the SOS collection exactly when \<^verbatim>\<open>alertType === 'sos'\<close>.\<close>

definition selected_alerts :: "jsval \<Rightarrow> state \<Rightarrow> alert list" where
  "selected_alerts alert_type s =
     (if alert_type = JStr ''sos'' then sosAlerts s else cameraAlerts s)"

text \<open>
  \<^verbatim>\<open>POST /resolve-alert\<close>. There is no \<^verbatim>\<open>try\<close>: destructuring an undefined or null body
  throws out of the handler (\<open>Inl\<close>). Otherwise the first alert of the selected collection
  whose id is \<^verbatim>\<open>alertId\<close> is updated in place. The argument \<open>now\<close> is
  \<^verbatim>\<open>new Date().toISOString()\<close>. (The template literal of line 252 is reached only when
  \<^verbatim>\<open>alertId\<close> is the id of an alert, a string.)
\<close>

definition resolve_alert ::
  "string \<Rightarrow> jsval \<Rightarrow> state \<Rightarrow> js_error + state \<times> response \<times> emit list" where
  "resolve_alert now b s =
     (if nullish b then Inl TypeError
      else
        let alert_id = get b ''alertId'';
            alert_type = get b ''alertType'';
            sos = (alert_type = JStr ''sos'');
            alerts = selected_alerts alert_type s
        in case findIndex (\<lambda>a. JStr (id' a) = alert_id) alerts of
             None \<Rightarrow> Inr (s, Response 404 (Failure ''Alert not found''), [])
           | Some i \<Rightarrow>
               let alert = (alerts ! i)\<lparr>alert.status := ''resolved'', respondedAt := JStr now\<rparr>;
                   alerts' = alerts[i := alert]
               in Inr (if sos then s\<lparr>sosAlerts := alerts'\<rparr> else s\<lparr>cameraAlerts := alerts'\<rparr>,
                       Response 200 (AlertBody alert),
                       [(ToAll, alert_resolved alert alert_type)]))"

text \<open>\<^verbatim>\<open>POST /clear-alerts\<close>.\<close>

definition clear_alerts :: "jsval \<Rightarrow> state \<Rightarrow> js_error + state \<times> response \<times> emit list" where
  "clear_alerts b s =
     (if nullish b then Inl TypeError
      else
        let alert_type = get b ''alertType'' in
        if alert_type = JStr ''camera'' then
          Inr (s\<lparr>cameraAlerts := []\<rparr>,
               Response 200 (ClearedBody (length (cameraAlerts s)) ''camera''),
               [(ToAll, camera_alerts_cleared)])
        else if alert_type = JStr ''sos'' then
          Inr (s\<lparr>sosAlerts := []\<rparr>,
               Response 200 (ClearedBody (length (sosAlerts s)) ''sos''),
               [(ToAll, sos_alerts_cleared)])
        else
          Inr (s\<lparr>cameraAlerts := [], sosAlerts := []\<rparr>,
               Response 200 (ClearedBody (length (cameraAlerts s) + length (sosAlerts s)) ''all''),
               [(ToAll, all_alerts_cleared)]))"

text \<open>\<^verbatim>\<open>GET /tracking-data\<close>: the sessions and the officers, each with its socket id.\<close>

definition tracking_data ::
  "state \<Rightarrow> (socket_id \<times> tracking) list \<times> (socket_id \<times> officer) list" where
  "tracking_data s = (activeTracking s, connectedOfficers s)"

section \<open>Socket handlers\<close>

text \<open>
  Each takes the socket's id, the event's payload (a JSON value, or \<^verbatim>\<open>undefined\<close> when the
  client sent none) and the state, and gives the state it leaves, what it emitted, and how
  it ended.
\<close>

definition connection :: "socket_id \<Rightarrow> state \<Rightarrow> state \<times> emit list" where
  "connection sid s =
     (s, [(ToSocket sid, all_camera_alerts (cameraAlerts s)),
          (ToSocket sid, all_sos_alerts (sosAlerts s))])"

text \<open>
  \<^verbatim>\<open>officer_login\<close>. The read of \<^verbatim>\<open>officer.name\<close> throws on a payload that is undefined
  or null, before the \<^verbatim>\<open>set\<close>. The template literal of line 76 converts \<^verbatim>\<open>officer.name\<close>,
  as sent, to a string: that is after the \<^verbatim>\<open>set\<close> and before \<^verbatim>\<open>io.emit\<close>.
\<close>

definition officer_login ::
  "runtime \<Rightarrow> socket_id \<Rightarrow> date \<Rightarrow> jsval \<Rightarrow> state \<Rightarrow> state \<times> emit list \<times> completion" where
  "officer_login rt sid now off s =
     (if nullish off then (s, [], Threw TypeError)
      else
        let s' = s\<lparr>connectedOfficers :=
                   Map_set sid
                     \<lparr>name = lor (get off ''name'') (JStr ''Officer''),
                      officer.lat = lor (get off ''lat'') (JNum fallback_lat),
                      officer.lng = lor (get off ''lng'') (JNum fallback_lng),
                      unit = lor (get off ''unit'') (JStr ''Unit-01''),
                      officer.status = ''available'',
                      loginTime = now\<rparr>
                     (connectedOfficers s)\<rparr>
        in case ToString rt (get off ''name'') of
             Inl e \<Rightarrow> (s', [], Threw e)
           | Inr n \<Rightarrow>
               (s', [(ToAll, officers_updated (Map_values (connectedOfficers s')))], Returned))"

text \<open>\<^verbatim>\<open>officer?.lat\<close>: undefined when there is no officer for the socket.\<close>

definition opt_lat :: "officer option \<Rightarrow> jsval" where
  "opt_lat off = (case off of None \<Rightarrow> JUndefined | Some p \<Rightarrow> officer.lat p)"

definition opt_lng :: "officer option \<Rightarrow> jsval" where
  "opt_lng off = (case off of None \<Rightarrow> JUndefined | Some p \<Rightarrow> officer.lng p)"

text \<open>The object literal of lines 86-95, given the two parsed alert coordinates.\<close>

definition new_tracking :: "date \<Rightarrow> jsval \<Rightarrow> officer option \<Rightarrow> jsnum \<Rightarrow> jsnum \<Rightarrow> tracking" where
  "new_tracking now d off ala aln =
     \<lparr>alertId = get d ''alertId'',
      alertLat = ala,
      alertLng = aln,
      tracking.alertType = lor (get d ''alertType'') (JStr ''camera''),
      officerLat = lor (opt_lat off) (JNum fallback_lat),
      officerLng = lor (opt_lng off) (JNum fallback_lng),
      startTime = now,
      tracking.status = ''tracking''\<rparr>"

text \<open>
  \<^verbatim>\<open>start_tracking\<close>. Destructuring throws on a payload that is undefined or null; the
  template literal of line 82 converts \<^verbatim>\<open>alertId\<close> to a string; the two calls of
  \<^verbatim>\<open>parseFloat\<close> convert \<^verbatim>\<open>alertLat\<close> and \<^verbatim>\<open>alertLng\<close>. All of that is before the
  \<^verbatim>\<open>set\<close>.
\<close>

definition start_tracking ::
  "runtime \<Rightarrow> socket_id \<Rightarrow> date \<Rightarrow> jsval \<Rightarrow> state \<Rightarrow> state \<times> emit list \<times> completion" where
  "start_tracking rt sid now d s =
     (if nullish d then (s, [], Threw TypeError)
      else
        (case ToString rt (get d ''alertId'') of
           Inl e \<Rightarrow> (s, [], Threw e)
         | Inr i \<Rightarrow>
             let off = Map_get (connectedOfficers s) sid in
             (case parseFloat rt (get d ''alertLat'') of
                Inl e \<Rightarrow> (s, [], Threw e)
              | Inr ala \<Rightarrow>
                  (case parseFloat rt (get d ''alertLng'') of
                     Inl e \<Rightarrow> (s, [], Threw e)
                   | Inr aln \<Rightarrow>
                       let t = new_tracking now d off ala aln in
                       (s\<lparr>activeTracking := Map_set sid t (activeTracking s)\<rparr>,
                        [(ToSocket sid,
                          tracking_started True ''Tracking activated'' (get d ''alertId'')),
                         (ToAll, tracking_update sid t)],
                        Returned)))))"

text \<open>
  \<^verbatim>\<open>update_location\<close>. Nothing is read when the socket has no officer. Otherwise line 112
  throws on a payload that is undefined or null or on a \<^verbatim>\<open>lat\<close> that cannot be converted,
  before anything is written; line 113 throws on such a \<^verbatim>\<open>lng\<close> when the officer's
  \<^verbatim>\<open>lat\<close> is already written. Lines 117-118 parse the same two values again.
\<close>

definition update_location ::
  "runtime \<Rightarrow> socket_id \<Rightarrow> jsval \<Rightarrow> state \<Rightarrow> state \<times> emit list \<times> completion" where
  "update_location rt sid loc s =
     (case Map_get (connectedOfficers s) sid of
        None \<Rightarrow> (s, [], Returned)
      | Some off \<Rightarrow>
          if nullish loc then (s, [], Threw TypeError)
          else
            (case parseFloat rt (get loc ''lat'') of
               Inl e \<Rightarrow> (s, [], Threw e)
             | Inr la \<Rightarrow>
                 (case parseFloat rt (get loc ''lng'') of
                    Inl e \<Rightarrow>
                      (s\<lparr>connectedOfficers :=
                           Map_set sid (off\<lparr>officer.lat := JNum la\<rparr>) (connectedOfficers s)\<rparr>,
                       [], Threw e)
                  | Inr ln \<Rightarrow>
                      let s1 = s\<lparr>connectedOfficers :=
                                  Map_set sid (off\<lparr>officer.lat := JNum la, officer.lng := JNum ln\<rparr>)
                                    (connectedOfficers s)\<rparr>
                      in (case Map_get (activeTracking s1) sid of
                            None \<Rightarrow> (s1, [], Returned)
                          | Some t \<Rightarrow>
                              let t' = t\<lparr>officerLat := JNum la, officerLng := JNum ln\<rparr> in
                              (s1\<lparr>activeTracking := Map_set sid t' (activeTracking s1)\<rparr>,
                               [(ToAll, tracking_update sid t')], Returned)))))"

definition stop_tracking :: "socket_id \<Rightarrow> jsval \<Rightarrow> state \<Rightarrow> state \<times> emit list" where
  "stop_tracking sid d s =
     (s\<lparr>activeTracking := Map_delete sid (activeTracking s)\<rparr>,
      [(ToAll, tracking_stopped sid)])"

definition disconnect :: "socket_id \<Rightarrow> state \<Rightarrow> state \<times> emit list" where
  "disconnect sid s =
     (s\<lparr>connectedOfficers := Map_delete sid (connectedOfficers s),
        activeTracking := Map_delete sid (activeTracking s)\<rparr>,
      [])"

section \<open>Sequences of requests and events\<close>

datatype ingestion = SendAlert clock request | SendSosAlert clock request

fun ingest :: "runtime \<Rightarrow> ingestion \<Rightarrow> state \<Rightarrow> state \<times> response \<times> emit list" where
  "ingest rt (SendAlert clk req) s = send_alert rt clk req s"
| "ingest rt (SendSosAlert clk req) s = send_sos_alert rt clk req s"

text \<open>The requests are served one after the other, each to completion.\<close>

fun ingest_all :: "runtime \<Rightarrow> ingestion list \<Rightarrow> state \<Rightarrow> state \<times> response list" where
  "ingest_all rt [] s = (s, [])"
| "ingest_all rt (r # rs) s =
     (case ingest rt r s of (s1, resp, evs) \<Rightarrow>
        case ingest_all rt rs s1 of (s2, resps) \<Rightarrow> (s2, resp # resps))"

text \<open>
  The alert that a request puts into its collection: the one built from its body, when
  the key is right, the body is there and building it does not throw, that is, when the
  handler gets as far as \<^verbatim>\<open>unshift\<close>. What the handler answers afterwards does not
  matter.
\<close>

fun inserted_by :: "runtime \<Rightarrow> ingestion \<Rightarrow> alert option" where
  "inserted_by rt (SendAlert clk req) =
     (if apiKey req \<noteq> JStr API_KEY \<or> nullish (body req) then None
      else case build_camera_alert rt clk (body req) of Inl e \<Rightarrow> None | Inr a \<Rightarrow> Some a)"
| "inserted_by rt (SendSosAlert clk req) =
     (if apiKey req \<noteq> JStr API_KEY \<or> nullish (body req) then None
      else case build_sos_alert rt clk (body req) of Inl e \<Rightarrow> None | Inr a \<Rightarrow> Some a)"

text \<open>The insertions of a run into one collection, oldest first.\<close>

fun camera_inserted :: "runtime \<Rightarrow> ingestion list \<Rightarrow> alert list" where
  "camera_inserted rt [] = []"
| "camera_inserted rt (SendAlert clk req # rs) =
     (case inserted_by rt (SendAlert clk req) of
        None \<Rightarrow> camera_inserted rt rs
      | Some a \<Rightarrow> a # camera_inserted rt rs)"
| "camera_inserted rt (SendSosAlert clk req # rs) = camera_inserted rt rs"

fun sos_inserted :: "runtime \<Rightarrow> ingestion list \<Rightarrow> alert list" where
  "sos_inserted rt [] = []"
| "sos_inserted rt (SendSosAlert clk req # rs) =
     (case inserted_by rt (SendSosAlert clk req) of
        None \<Rightarrow> sos_inserted rt rs
      | Some a \<Rightarrow> a # sos_inserted rt rs)"
| "sos_inserted rt (SendAlert clk req # rs) = sos_inserted rt rs"

datatype socket_event =
    OfficerLogin date jsval
  | StartTracking date jsval
  | UpdateLocation jsval
  | StopTracking jsval
  | Disconnect

fun socket_step ::
  "runtime \<Rightarrow> socket_id \<Rightarrow> socket_event \<Rightarrow> state \<Rightarrow> state \<times> emit list \<times> completion" where
  "socket_step rt sid (OfficerLogin now off) s = officer_login rt sid now off s"
| "socket_step rt sid (StartTracking now d) s = start_tracking rt sid now d s"
| "socket_step rt sid (UpdateLocation loc) s = update_location rt sid loc s"
| "socket_step rt sid (StopTracking d) s =
     (case stop_tracking sid d s of (s', evs) \<Rightarrow> (s', evs, Returned))"
| "socket_step rt sid Disconnect s =
     (case disconnect sid s of (s', evs) \<Rightarrow> (s', evs, Returned))"

text \<open>Events in the order they arrive; the run ends at the first handler that throws.\<close>

fun socket_run ::
  "runtime \<Rightarrow> (socket_id \<times> socket_event) list \<Rightarrow> state \<Rightarrow> state \<times> emit list \<times> completion" where
  "socket_run rt [] s = (s, [], Returned)"
| "socket_run rt ((sid, ev) # rest) s =
     (case socket_step rt sid ev s of
        (s1, out1, Threw e) \<Rightarrow> (s1, out1, Threw e)
      | (s1, out1, Returned) \<Rightarrow>
          (case socket_run rt rest s1 of (s2, out2, c) \<Rightarrow> (s2, out1 @ out2, c)))"

text \<open>A number that is zero; a value that is a finite number.\<close>

fun is_zero :: "jsnum \<Rightarrow> bool" where
  "is_zero (Fin m e) = (m = 0)"
| "is_zero x = False"


section \<open>A runtime for the examples\<close>

text \<open>
  The examples below need the four built-ins on a few short ASCII strings and small
  numbers. This runtime computes with exact decimals and ASCII letters; on such inputs it
  gives what JavaScript gives. It is used for the examples only.
\<close>

function norm_dec :: "int \<Rightarrow> int \<Rightarrow> int \<times> int" where
  "norm_dec m e =
     (if m = 0 then (0, 0)
      else if m mod 10 = 0 then norm_dec (m div 10) (e + 1)
      else (m, e))"
  by pat_completeness auto
termination
  by (relation "measure (\<lambda>(m, e). nat \<bar>m\<bar>)") auto

declare norm_dec.simps [simp del]

definition mk_fin :: "int \<Rightarrow> int \<Rightarrow> jsnum" where
  "mk_fin m e = (case norm_dec m e of (m', e') \<Rightarrow> Fin m' e')"

function digits :: "int \<Rightarrow> string" where
  "digits n =
     (if n < 10 then [char_of (48 + n)]
      else digits (n div 10) @ [char_of (48 + n mod 10)])"
  by pat_completeness auto
termination
  by (relation "measure nat") auto

declare digits.simps [simp del]

definition dec_to_string :: "int \<Rightarrow> int \<Rightarrow> string" where
  "dec_to_string m e =
     (let s = digits m; k = int (length s); n = k + e in
      if k \<le> n \<and> n \<le> 21 then s @ replicate (nat (n - k)) (CHR ''0'')
      else if 0 < n \<and> n \<le> 21 then take (nat n) s @ ''.'' @ drop (nat n) s
      else if - 6 < n \<and> n \<le> 0 then ''0.'' @ replicate (nat (- n)) (CHR ''0'') @ s
      else
        let x = n - 1;
            es = (if x < 0 then ''-'' else ''+'') @ digits \<bar>x\<bar>
        in if k = 1 then s @ ''e'' @ es else hd s # ''.'' @ tl s @ ''e'' @ es)"

fun num_to_string :: "jsnum \<Rightarrow> string" where
  "num_to_string NaN = ''NaN''"
| "num_to_string PosInf = ''Infinity''"
| "num_to_string NegInf = ''-Infinity''"
| "num_to_string (Fin m e) =
     (case norm_dec m e of (m', e') \<Rightarrow>
        if m' = 0 then ''0''
        else (if m' < 0 then ''-'' else []) @ dec_to_string \<bar>m'\<bar> e')"

definition is_ws :: "char \<Rightarrow> bool" where
  "is_ws c = ((of_char c :: nat) \<in> {9, 10, 11, 12, 13, 32})"

definition is_digit :: "char \<Rightarrow> bool" where
  "is_digit c = (48 \<le> (of_char c :: nat) \<and> (of_char c :: nat) \<le> 57)"

definition hex_digit_val :: "char \<Rightarrow> nat option" where
  "hex_digit_val c =
     (let n = (of_char c :: nat) in
      if 48 \<le> n \<and> n \<le> 57 then Some (n - 48)
      else if 97 \<le> n \<and> n \<le> 102 then Some (n - 87)
      else if 65 \<le> n \<and> n \<le> 70 then Some (n - 55)
      else None)"

definition str_val :: "nat \<Rightarrow> string \<Rightarrow> nat" where
  "str_val radix ds = foldl (\<lambda>a c. radix * a + the (hex_digit_val c)) 0 ds"

definition take_sign :: "string \<Rightarrow> bool \<times> string" where
  "take_sign s =
     (case s of
        [] \<Rightarrow> (False, [])
      | c # r \<Rightarrow>
          if c = CHR ''-'' then (True, r)
          else if c = CHR ''+'' then (False, r)
          else (False, s))"

definition exponent_part :: "string \<Rightarrow> int" where
  "exponent_part r =
     (case r of
        [] \<Rightarrow> 0
      | c # r1 \<Rightarrow>
          if c = CHR ''e'' \<or> c = CHR ''E'' then
            (case take_sign r1 of (neg, r2) \<Rightarrow>
               let ds = takeWhile is_digit r2 in
               if ds = [] then 0
               else if neg then - int (str_val 10 ds) else int (str_val 10 ds))
          else 0)"

definition decimal_parseFloat :: "string \<Rightarrow> jsnum" where
  "decimal_parseFloat s =
     (case take_sign (dropWhile is_ws s) of (neg, s2) \<Rightarrow>
        if take 8 s2 = ''Infinity'' then (if neg then NegInf else PosInf)
        else
          let ip = takeWhile is_digit s2;
              r1 = dropWhile is_digit s2;
              dot = (r1 \<noteq> [] \<and> hd r1 = CHR ''.'');
              fp = (if dot then takeWhile is_digit (tl r1) else []);
              r2 = (if dot then dropWhile is_digit (tl r1) else r1)
          in if ip = [] \<and> fp = [] then NaN
             else
               let v = int (str_val 10 (ip @ fp));
                   x = exponent_part r2 - int (length fp)
               in mk_fin (if neg then - v else v) x)"

definition decimal_parseInt :: "string \<Rightarrow> jsnum" where
  "decimal_parseInt s =
     (case take_sign (dropWhile is_ws s) of (neg, s2) \<Rightarrow>
        let hex = (take 2 s2 = ''0x'' \<or> take 2 s2 = ''0X'');
            ds = (if hex then takeWhile (\<lambda>c. hex_digit_val c \<noteq> None) (drop 2 s2)
                  else takeWhile is_digit s2)
        in if ds = [] then NaN
           else
             let v = int (str_val (if hex then 16 else 10) ds)
             in mk_fin (if neg then - v else v) 0)"

definition ascii_toUpperCase :: "string \<Rightarrow> string" where
  "ascii_toUpperCase s =
     map (\<lambda>c. let n = (of_char c :: nat) in
              if 97 \<le> n \<and> n \<le> 122 then char_of (n - 32) else c) s"

definition sample_runtime :: runtime where
  "sample_runtime =
     \<lparr>Number_toString = num_to_string,
      parseFloat_string = decimal_parseFloat,
      parseInt_string = decimal_parseInt,
      toUpperCase = ascii_toUpperCase\<rparr>"

section \<open>Sample inputs\<close>

definition sample_clock :: "string \<Rightarrow> clock" where
  "sample_clock n =
     \<lparr>date_now = n, random_suffix = ''k3x9q2m1z'',
      iso_time = ''2026-01-01T00:00:00.000Z'', iso_received = ''2026-01-01T00:00:00.001Z''\<rparr>"

text \<open>The camera alert of a body that gives only the place.\<close>

definition sample_alert :: alert where
  "sample_alert =
     camera_alert sample_runtime (sample_clock ''2'') (JObj [(''place'', JStr ''Main St'')])
       ''MEDIUM'' NaN NaN NaN NaN NaN"

text \<open>The camera alert of a body whose place is the object \<^verbatim>\<open>{"toString": 1}\<close>.\<close>

definition odd_place_alert :: alert where
  "odd_place_alert =
     camera_alert sample_runtime (sample_clock ''5'')
       (JObj [(''place'', JObj [(''toString'', JNum (Fin 1 0))])]) ''MEDIUM'' NaN NaN NaN NaN NaN"

definition old_alert :: alert where
  "old_alert =
     camera_alert sample_runtime (sample_clock ''1'') (JObj []) ''MEDIUM'' NaN NaN NaN NaN NaN"

definition sample_sos_alert :: alert where
  "sample_sos_alert = sos_alert (sample_clock ''4'') (JObj []) NaN NaN"

text \<open>A state whose camera collection is full.\<close>

definition full_state :: state where
  "full_state = initial_state\<lparr>cameraAlerts := replicate 200 old_alert\<rparr>"

definition sample_run :: "ingestion list" where
  "sample_run =
     [SendAlert (sample_clock ''2'')
        \<lparr>apiKey = JStr ''secure_key_123'', body = JObj [(''place'', JStr ''Main St'')]\<rparr>,
      SendSosAlert (sample_clock ''3'') \<lparr>apiKey = JStr ''wrong'', body = JObj []\<rparr>,
      SendSosAlert (sample_clock ''4'') \<lparr>apiKey = JStr ''secure_key_123'', body = JObj []\<rparr>,
      SendAlert (sample_clock ''5'')
        \<lparr>apiKey = JStr ''secure_key_123'',
         body = JObj [(''place'', JObj [(''toString'', JNum (Fin 1 0))])]\<rparr>]"

definition one_alert_state :: state where
  "one_alert_state = initial_state\<lparr>cameraAlerts := [sample_alert]\<rparr>"

definition two_kind_state :: state where
  "two_kind_state =
     initial_state\<lparr>cameraAlerts := [sample_alert], sosAlerts := [sample_sos_alert]\<rparr>"

definition sample_login :: jsval where
  "sample_login =
     JObj [(''name'', JStr ''Asha''), (''lat'', JNum (Fin 1101 (- 2))),
           (''lng'', JNum (Fin 7702 (- 2))), (''unit'', JStr ''Unit-07'')]"

definition sample_track :: jsval where
  "sample_track =
     JObj [(''alertId'', JStr ''CAM-ALERT-2-k3x9q2m1z''), (''alertLat'', JStr ''12.1''),
           (''alertLng'', JStr ''77.2''), (''alertType'', JStr ''camera'')]"

definition sample_officer :: officer where
  "sample_officer =
     \<lparr>name = JStr ''Asha'', officer.lat = JNum (Fin 1101 (- 2)),
      officer.lng = JNum (Fin 7702 (- 2)), unit = JStr ''Unit-07'',
      officer.status = ''available'', loginTime = ''2026-01-01T08:00:00.000Z''\<rparr>"

definition sample_tracking :: tracking where
  "sample_tracking =
     \<lparr>alertId = JStr ''CAM-ALERT-2-k3x9q2m1z'', alertLat = Fin 121 (- 1),
      alertLng = Fin 772 (- 1), tracking.alertType = JStr ''camera'',
      officerLat = JNum (Fin 1101 (- 2)), officerLng = JNum (Fin 7702 (- 2)),
      startTime = ''2026-01-01T08:05:00.000Z'', tracking.status = ''tracking''\<rparr>"

text \<open>One alert, one officer logged in on socket \<^verbatim>\<open>sock1\<close>, who is tracking that alert.\<close>

definition tracking_state :: state where
  "tracking_state =
     one_alert_state\<lparr>connectedOfficers := [(''sock1'', sample_officer)],
                      activeTracking := [(''sock1'', sample_tracking)]\<rparr>"

text \<open>No alert; the officer on \<^verbatim>\<open>sock1\<close> has reported the position (0, 78.5).\<close>

definition equator_state :: state where
  "equator_state =
     initial_state\<lparr>connectedOfficers :=
       [(''sock1'', sample_officer\<lparr>officer.lat := JNum (Fin 0 0),
                                    officer.lng := JNum (Fin 785 (- 1))\<rparr>)]\<rparr>"

text \<open>The payload object \<^verbatim>\<open>{"toString": 1}\<close>.\<close>

definition odd_object :: jsval where
  "odd_object = JObj [(''toString'', JNum (Fin 1 0))]"

text \<open>A request with the right key, the string \<^verbatim>\<open>"0"\<close> as latitude and the number 0 as longitude.\<close>

definition zero_request :: request where
  "zero_request =
     \<lparr>apiKey = JStr ''secure_key_123'',
      body = JObj [(''lat'', JStr ''0''), (''lng'', JNum (Fin 0 0))]\<rparr>"

section \<open>The built-ins\<close>

lemma sample_parse [simp]:
  "parseFloat sample_runtime JUndefined = Inr NaN"
  "parseInt sample_runtime JUndefined = Inr NaN"
  "toUpperCase sample_runtime ''MEDIUM'' = ''MEDIUM''"
  by code_simp+

lemma odd_object_throws [simp]:
  "ToString rt odd_object = Inl TypeError"
  "parseFloat rt odd_object = Inl TypeError"
  "parseInt rt odd_object = Inl TypeError"
  by (simp_all add: odd_object_def parseFloat_def parseInt_def)

lemma sample_runtime_undefined:
  "parseFloat_string sample_runtime ''undefined'' = NaN"
  "parseInt_string sample_runtime ''undefined'' = NaN"
  "toUpperCase sample_runtime ''MEDIUM'' = ''MEDIUM''"
  by code_simp+

lemma sample_runtime_values:
  "parseFloat sample_runtime (JStr ''abc'') = Inr NaN"
  "parseFloat sample_runtime (JStr ''12.5'') = Inr (Fin 125 (- 1))"
  "parseFloat sample_runtime (JStr ''0'') = Inr (Fin 0 0)"
  "parseFloat sample_runtime (JNum (Fin 0 0)) = Inr (Fin 0 0)"
  "parseInt sample_runtime (JStr ''3'') = Inr (Fin 3 0)"
  "toUpperCase sample_runtime ''high'' = ''HIGH''"
  by code_simp+

text \<open>Conversions that throw.\<close>

lemma js_error_TypeError: "(e :: js_error) = TypeError"
  by (cases e) simp

lemma throws_ToString: "throws rt v \<longleftrightarrow> ToString rt v = Inl TypeError"
  by (cases "ToString rt v") (simp_all add: throws_def js_error_TypeError)

lemma throws_parseFloat: "throws rt v \<longleftrightarrow> parseFloat rt v = Inl TypeError"
  by (cases "ToString rt v") (simp_all add: throws_def parseFloat_def js_error_TypeError)

lemma throws_parseInt: "throws rt v \<longleftrightarrow> parseInt rt v = Inl TypeError"
  by (cases "ToString rt v") (simp_all add: throws_def parseInt_def js_error_TypeError)

lemma parse_Inr_not_throws:
  "parseFloat rt v = Inr x \<Longrightarrow> \<not> throws rt v"
  "parseInt rt v = Inr y \<Longrightarrow> \<not> throws rt v"
  by (cases "ToString rt v"; simp add: throws_def parseFloat_def parseInt_def)+

lemma parse_undefined:
  "parseFloat rt JUndefined = Inr (parseFloat_string rt ''undefined'')"
  "parseInt rt JUndefined = Inr (parseInt_string rt ''undefined'')"
  by (simp_all add: parseFloat_def parseInt_def)

lemma build_sample_alert:
  "build_camera_alert sample_runtime (sample_clock ''2'') (JObj [(''place'', JStr ''Main St'')])
     = Inr sample_alert"
  by (simp add: build_camera_alert_def lor_def sample_alert_def)

lemma build_odd_place_alert:
  "build_camera_alert sample_runtime (sample_clock ''5'')
     (JObj [(''place'', JObj [(''toString'', JNum (Fin 1 0))])]) = Inr odd_place_alert"
  by (simp add: build_camera_alert_def lor_def odd_place_alert_def)

lemma build_sample_sos_alert:
  "build_sos_alert sample_runtime (sample_clock ''4'') (JObj []) = Inr sample_sos_alert"
  by (simp add: build_sos_alert_def sample_sos_alert_def)

section \<open>The bounded alert collections\<close>

lemma unshift_capped_take:
  "length xs \<le> MAX_ALERTS \<Longrightarrow> unshift_capped a xs = take MAX_ALERTS (a # xs)"
  by (cases "length xs = MAX_ALERTS") (auto simp: unshift_capped_def Let_def butlast_conv_take)

lemma take_append_take: "take n (xs @ take n ys) = take n (xs @ ys)"
  by (simp add: min_def)

text \<open>What a request does to the two collections, whatever it answers.\<close>

lemma send_alert_collections:
  "cameraAlerts (fst (send_alert rt clk req s)) =
     (case inserted_by rt (SendAlert clk req) of
        None \<Rightarrow> cameraAlerts s
      | Some a \<Rightarrow> unshift_capped a (cameraAlerts s))"
  "sosAlerts (fst (send_alert rt clk req s)) = sosAlerts s"
  by (simp_all add: send_alert_def Let_def split: sum.splits)

lemma send_sos_alert_collections:
  "sosAlerts (fst (send_sos_alert rt clk req s)) =
     (case inserted_by rt (SendSosAlert clk req) of
        None \<Rightarrow> sosAlerts s
      | Some a \<Rightarrow> unshift_capped a (sosAlerts s))"
  "cameraAlerts (fst (send_sos_alert rt clk req s)) = cameraAlerts s"
  by (simp_all add: send_sos_alert_def Let_def split: sum.splits)

lemma ingest_step:
  assumes "length (cameraAlerts s) \<le> MAX_ALERTS" and "length (sosAlerts s) \<le> MAX_ALERTS"
  shows "cameraAlerts (fst (ingest rt r s)) =
           take MAX_ALERTS (rev (camera_inserted rt [r]) @ cameraAlerts s)"
    and "sosAlerts (fst (ingest rt r s)) =
           take MAX_ALERTS (rev (sos_inserted rt [r]) @ sosAlerts s)"
proof -
  show "cameraAlerts (fst (ingest rt r s)) =
           take MAX_ALERTS (rev (camera_inserted rt [r]) @ cameraAlerts s)"
  proof (cases r)
    case (SendAlert clk req)
    with assms show ?thesis
      by (cases "inserted_by rt (SendAlert clk req)")
         (simp_all add: send_alert_collections unshift_capped_take del: inserted_by.simps take_append)
  next
    case (SendSosAlert clk req)
    with assms show ?thesis
      by (simp add: send_sos_alert_collections)
  qed
  show "sosAlerts (fst (ingest rt r s)) =
           take MAX_ALERTS (rev (sos_inserted rt [r]) @ sosAlerts s)"
  proof (cases r)
    case (SendAlert clk req)
    with assms show ?thesis
      by (simp add: send_alert_collections)
  next
    case (SendSosAlert clk req)
    with assms show ?thesis
      by (cases "inserted_by rt (SendSosAlert clk req)")
         (simp_all add: send_sos_alert_collections unshift_capped_take del: inserted_by.simps take_append)
  qed
qed

lemma camera_inserted_Cons: "camera_inserted rt (r # rs) = camera_inserted rt [r] @ camera_inserted rt rs"
  by (cases r; cases "inserted_by rt r") (simp_all del: inserted_by.simps)

lemma sos_inserted_Cons: "sos_inserted rt (r # rs) = sos_inserted rt [r] @ sos_inserted rt rs"
  by (cases r; cases "inserted_by rt r") (simp_all del: inserted_by.simps)

lemma ingest_all_retained:
  "length (cameraAlerts s) \<le> MAX_ALERTS \<Longrightarrow> length (sosAlerts s) \<le> MAX_ALERTS \<Longrightarrow>
     cameraAlerts (fst (ingest_all rt rs s)) =
       take MAX_ALERTS (rev (camera_inserted rt rs) @ cameraAlerts s)
   \<and> sosAlerts (fst (ingest_all rt rs s)) =
       take MAX_ALERTS (rev (sos_inserted rt rs) @ sosAlerts s)"
proof (induction rs arbitrary: s)
  case Nil
  then show ?case by simp
next
  case (Cons r rs)
  let ?s1 = "fst (ingest rt r s)"
  note one = ingest_step [OF Cons.prems, of rt r]
  from one have len:
    "length (cameraAlerts ?s1) \<le> MAX_ALERTS" "length (sosAlerts ?s1) \<le> MAX_ALERTS"
    by simp_all
  note ih = Cons.IH [OF len]
  have run: "fst (ingest_all rt (r # rs) s) = fst (ingest_all rt rs ?s1)"
    by (simp add: split_def)
  have c: "cameraAlerts (fst (ingest_all rt (r # rs) s)) =
             take MAX_ALERTS (rev (camera_inserted rt (r # rs)) @ cameraAlerts s)"
    unfolding run using ih one
    by (simp add: camera_inserted_Cons [of rt r rs] take_append_take del: take_append)
  have d: "sosAlerts (fst (ingest_all rt (r # rs) s)) =
             take MAX_ALERTS (rev (sos_inserted rt (r # rs)) @ sosAlerts s)"
    unfolding run using ih one
    by (simp add: sos_inserted_Cons [of rt r rs] take_append_take del: take_append)
  from c d show ?case by simp
qed

text \<open>
  C1. Whatever sequence of ingestion requests (camera and SOS, in any order, accepted or
  not) is served from a state whose collections are within the cap, each collection ends
  with at most \<open>MAX_ALERTS = 200\<close> alerts, and it holds exactly the first 200 of: the alerts
  that the run inserted into it, newest first, followed by what it held before.
\<close>

theorem C1_collections_bounded_newest_first:
  assumes "length (cameraAlerts s) \<le> MAX_ALERTS" and "length (sosAlerts s) \<le> MAX_ALERTS"
  shows "MAX_ALERTS = 200
       \<and> length (cameraAlerts (fst (ingest_all rt rs s))) \<le> MAX_ALERTS
       \<and> length (sosAlerts (fst (ingest_all rt rs s))) \<le> MAX_ALERTS
       \<and> cameraAlerts (fst (ingest_all rt rs s)) =
           take MAX_ALERTS (rev (camera_inserted rt rs) @ cameraAlerts s)
       \<and> sosAlerts (fst (ingest_all rt rs s)) =
           take MAX_ALERTS (rev (sos_inserted rt rs) @ sosAlerts s)"
proof -
  note kept = ingest_all_retained [OF assms, of rt rs]
  from kept have "length (cameraAlerts (fst (ingest_all rt rs s))) \<le> MAX_ALERTS"
    "length (sosAlerts (fst (ingest_all rt rs s))) \<le> MAX_ALERTS"
    by simp_all
  with kept show ?thesis
    by (simp add: MAX_ALERTS_def)
qed

text \<open>
  At a full camera collection: an accepted camera alert, a refused SOS alert, an accepted
  SOS alert, and a camera alert whose place is \<^verbatim>\<open>{"toString": 1}\<close>, which is stored
  although the request is answered 500. The two new camera alerts are at the head and the
  two oldest are gone.
\<close>

theorem C1_collections_bounded_witness:
  "length (cameraAlerts full_state) \<le> MAX_ALERTS
 \<and> length (sosAlerts full_state) \<le> MAX_ALERTS
 \<and> snd (ingest_all sample_runtime sample_run full_state) =
     [Response 200 (AlertBody sample_alert), Response 403 (Failure ''Unauthorized''),
      Response 200 (AlertBody sample_sos_alert), Response 500 (FailureError TypeError)]
 \<and> length (cameraAlerts (fst (ingest_all sample_runtime sample_run full_state))) \<le> 200
 \<and> cameraAlerts (fst (ingest_all sample_runtime sample_run full_state)) =
     odd_place_alert # sample_alert # replicate 198 old_alert
 \<and> sosAlerts (fst (ingest_all sample_runtime sample_run full_state)) = [sample_sos_alert]"
proof -
  have h1: "length (cameraAlerts full_state) \<le> MAX_ALERTS"
    by (simp add: full_state_def MAX_ALERTS_def)
  have h2: "length (sosAlerts full_state) \<le> MAX_ALERTS"
    by (simp add: full_state_def initial_state_def)
  note inst = C1_collections_bounded_newest_first [OF h1 h2, of sample_runtime sample_run]
  have ins: "camera_inserted sample_runtime sample_run = [sample_alert, odd_place_alert]"
    "sos_inserted sample_runtime sample_run = [sample_sos_alert]"
    by (simp_all add: sample_run_def API_KEY_def nullish_def build_sample_alert
          build_odd_place_alert build_sample_sos_alert)
  have resps: "snd (ingest_all sample_runtime sample_run full_state) =
     [Response 200 (AlertBody sample_alert), Response 403 (Failure ''Unauthorized''),
      Response 200 (AlertBody sample_sos_alert), Response 500 (FailureError TypeError)]"
    by (simp add: sample_run_def send_alert_def send_sos_alert_def API_KEY_def nullish_def
          Let_def split_def build_sample_alert build_odd_place_alert build_sample_sos_alert
          sample_alert_def odd_place_alert_def sample_sos_alert_def camera_alert_def
          sos_alert_def lor_def)
  have c: "cameraAlerts full_state = replicate 200 old_alert" "sosAlerts full_state = []"
    by (simp_all add: full_state_def initial_state_def)
  have t: "take 200 (x # y # replicate 200 z) = x # y # replicate 198 z" for x y z :: alert
    by (simp add: take_Cons')
  from inst [unfolded MAX_ALERTS_def ins] h1 h2 resps show ?thesis
    by (simp add: c t)
qed

section \<open>Ingestion with a wrong credential\<close>

text \<open>
  C2. A camera or SOS ingestion whose \<^verbatim>\<open>x-api-key\<close> header is not the configured key
  (or is missing) is answered 403; the state, hence both collections, is the one before,
  and nothing is emitted.
\<close>

theorem C2_wrong_key_unauthorized:
  assumes "apiKey req \<noteq> JStr API_KEY"
  shows "send_alert rt clk req s = (s, Response 403 (Failure ''Unauthorized: Invalid API key''), [])
       \<and> send_sos_alert rt clk req s = (s, Response 403 (Failure ''Unauthorized''), [])"
  using assms by (simp add: send_alert_def send_sos_alert_def)

text \<open>A request without the header, at a state that holds one alert.\<close>

theorem C2_wrong_key_unauthorized_witness:
  "apiKey \<lparr>apiKey = JUndefined, body = JObj [(''place'', JStr ''Main St'')]\<rparr> \<noteq> JStr API_KEY
 \<and> send_alert sample_runtime (sample_clock ''5'')
       \<lparr>apiKey = JUndefined, body = JObj [(''place'', JStr ''Main St'')]\<rparr> one_alert_state
     = (one_alert_state, Response 403 (Failure ''Unauthorized: Invalid API key''), [])
 \<and> send_sos_alert sample_runtime (sample_clock ''5'')
       \<lparr>apiKey = JUndefined, body = JObj [(''place'', JStr ''Main St'')]\<rparr> one_alert_state
     = (one_alert_state, Response 403 (Failure ''Unauthorized''), [])"
proof -
  have h: "apiKey \<lparr>apiKey = JUndefined, body = JObj [(''place'', JStr ''Main St'')]\<rparr> \<noteq> JStr API_KEY"
    by simp
  from h C2_wrong_key_unauthorized [OF h, of sample_runtime "sample_clock ''5''" one_alert_state]
  show ?thesis
    by (intro conjI) simp_all
qed

section \<open>Resolving an alert\<close>

lemma findIndex_None_iff: "findIndex P xs = None \<longleftrightarrow> (\<forall>x\<in>set xs. \<not> P x)"
  by (induction xs) auto

lemma findIndex_SomeD:
  "findIndex P xs = Some i \<Longrightarrow> i < length xs \<and> P (xs ! i) \<and> (\<forall>j<i. \<not> P (xs ! j))"
proof (induction xs arbitrary: i)
  case Nil
  then show ?case by simp
next
  case (Cons x xs)
  show ?case
  proof (cases "P x")
    case True
    with Cons.prems show ?thesis by simp
  next
    case False
    with Cons.prems obtain k where k: "findIndex P xs = Some k" "i = Suc k"
      by auto
    from Cons.IH [OF k(1)] False k(2) show ?thesis
      by (auto simp: less_Suc_eq_0_disj)
  qed
qed

lemma findIndex_update_same:
  assumes "findIndex P xs = Some i" and "P y"
  shows "findIndex P (xs[i := y]) = Some i"
  using assms
proof (induction xs arbitrary: i)
  case Nil
  then show ?case by simp
next
  case (Cons x xs)
  show ?case
  proof (cases "P x")
    case True
    with Cons.prems show ?thesis by simp
  next
    case False
    with Cons.prems obtain k where k: "findIndex P xs = Some k" "i = Suc k"
      by auto
    from Cons.IH [OF k(1) Cons.prems(2)] False k(2) show ?thesis
      by simp
  qed
qed

lemma resolve_alert_found:
  assumes "\<not> nullish b"
    and "findIndex (\<lambda>a. JStr (id' a) = get b ''alertId'') (selected_alerts (get b ''alertType'') s) = Some i"
  shows "resolve_alert now b s =
     Inr (if get b ''alertType'' = JStr ''sos''
          then s\<lparr>sosAlerts := (sosAlerts s)
                  [i := (sosAlerts s ! i)\<lparr>alert.status := ''resolved'', respondedAt := JStr now\<rparr>]\<rparr>
          else s\<lparr>cameraAlerts := (cameraAlerts s)
                  [i := (cameraAlerts s ! i)\<lparr>alert.status := ''resolved'', respondedAt := JStr now\<rparr>]\<rparr>,
          Response 200 (AlertBody ((selected_alerts (get b ''alertType'') s ! i)
                                     \<lparr>alert.status := ''resolved'', respondedAt := JStr now\<rparr>)),
          [(ToAll, alert_resolved ((selected_alerts (get b ''alertType'') s ! i)
                                     \<lparr>alert.status := ''resolved'', respondedAt := JStr now\<rparr>)
                     (get b ''alertType''))])"
  using assms by (simp add: resolve_alert_def Let_def selected_alerts_def)

lemma resolve_alert_not_found:
  assumes "\<not> nullish b"
    and "findIndex (\<lambda>a. JStr (id' a) = get b ''alertId'') (selected_alerts (get b ''alertType'') s) = None"
  shows "resolve_alert now b s = Inr (s, Response 404 (Failure ''Alert not found''), [])"
  using assms by (simp add: resolve_alert_def Let_def)

lemma resolve_alert_present:
  fixes now :: string and b :: jsval and s :: state and i :: nat
  assumes nb: "\<not> nullish b"
    and i: "findIndex (\<lambda>a. JStr (id' a) = get b ''alertId'')
              (selected_alerts (get b ''alertType'') s) = Some i"
  defines "a \<equiv> (selected_alerts (get b ''alertType'') s ! i)
                  \<lparr>alert.status := ''resolved'', respondedAt := JStr now\<rparr>"
  defines "s' \<equiv> (if get b ''alertType'' = JStr ''sos'' then s\<lparr>sosAlerts := (sosAlerts s)[i := a]\<rparr>
                  else s\<lparr>cameraAlerts := (cameraAlerts s)[i := a]\<rparr>)"
  shows "resolve_alert now b s =
           Inr (s', Response 200 (AlertBody a), [(ToAll, alert_resolved a (get b ''alertType''))])"
    and "selected_alerts (get b ''alertType'') s' = (selected_alerts (get b ''alertType'') s)[i := a]"
  using resolve_alert_found [OF nb i, of now]
  by (simp_all add: a_def s'_def selected_alerts_def)

text \<open>
  C3. For a request with a body: when the selected collection holds an alert with the
  requested id, the first such alert gets status \<^verbatim>\<open>resolved\<close> and \<^verbatim>\<open>respondedAt\<close> set to
  the current time, the answer is 200 with that alert, and a further resolve of the same
  id succeeds again and stamps the later time; when it holds none, the answer is 404 and
  the state is the one before, with nothing emitted.
\<close>

theorem C3_resolve_alert:
  assumes "\<not> nullish b"
  shows "((\<exists>x\<in>set (selected_alerts (get b ''alertType'') s). JStr (id' x) = get b ''alertId'') \<longrightarrow>
            (\<exists>i s' a. resolve_alert now b s =
                        Inr (s', Response 200 (AlertBody a),
                             [(ToAll, alert_resolved a (get b ''alertType''))])
               \<and> i < length (selected_alerts (get b ''alertType'') s)
               \<and> JStr (id' (selected_alerts (get b ''alertType'') s ! i)) = get b ''alertId''
               \<and> a = (selected_alerts (get b ''alertType'') s ! i)
                        \<lparr>alert.status := ''resolved'', respondedAt := JStr now\<rparr>
               \<and> alert.status a = ''resolved'' \<and> respondedAt a = JStr now
               \<and> selected_alerts (get b ''alertType'') s' =
                   (selected_alerts (get b ''alertType'') s)[i := a]
               \<and> (\<forall>now2. \<exists>s2 a2.
                     resolve_alert now2 b s' =
                       Inr (s2, Response 200 (AlertBody a2),
                            [(ToAll, alert_resolved a2 (get b ''alertType''))])
                     \<and> alert.status a2 = ''resolved'' \<and> respondedAt a2 = JStr now2)))
       \<and> ((\<forall>x\<in>set (selected_alerts (get b ''alertType'') s). JStr (id' x) \<noteq> get b ''alertId'') \<longrightarrow>
            resolve_alert now b s = Inr (s, Response 404 (Failure ''Alert not found''), []))"
proof (intro conjI impI)
  let ?ty = "get b ''alertType''"
  let ?P = "\<lambda>a. JStr (id' a) = get b ''alertId''"
  let ?xs = "selected_alerts ?ty s"
  assume "\<exists>x\<in>set ?xs. ?P x"
  then have "findIndex ?P ?xs \<noteq> None"
    by (simp add: findIndex_None_iff)
  then obtain i where i: "findIndex ?P ?xs = Some i"
    by auto
  note at = findIndex_SomeD [OF i]
  define a where "a = (?xs ! i)\<lparr>alert.status := ''resolved'', respondedAt := JStr now\<rparr>"
  define s' where "s' = (if ?ty = JStr ''sos'' then s\<lparr>sosAlerts := (sosAlerts s)[i := a]\<rparr>
                         else s\<lparr>cameraAlerts := (cameraAlerts s)[i := a]\<rparr>)"
  have run: "resolve_alert now b s =
               Inr (s', Response 200 (AlertBody a), [(ToAll, alert_resolved a ?ty)])"
    unfolding s'_def a_def by (rule resolve_alert_present(1) [OF assms i])
  have sel: "selected_alerts ?ty s' = ?xs[i := a]"
    unfolding s'_def a_def by (rule resolve_alert_present(2) [OF assms i])
  from at have lt: "i < length ?xs" and idi: "JStr (id' (?xs ! i)) = get b ''alertId''"
    by simp_all
  have Pa: "?P a"
    using idi by (simp add: a_def)
  have st: "alert.status a = ''resolved''" and ra: "respondedAt a = JStr now"
    by (simp_all add: a_def)
  have again: "\<exists>s2 a2. resolve_alert now2 b s' =
                  Inr (s2, Response 200 (AlertBody a2), [(ToAll, alert_resolved a2 ?ty)])
                \<and> alert.status a2 = ''resolved'' \<and> respondedAt a2 = JStr now2" for now2
  proof -
    have i': "findIndex ?P (selected_alerts ?ty s') = Some i"
      unfolding sel by (rule findIndex_update_same [where P = ?P, OF i Pa])
    show ?thesis
      apply (intro exI conjI)
        apply (rule resolve_alert_present(1) [OF assms i'])
       apply simp_all
      done
  qed
  show "\<exists>i s' a. resolve_alert now b s =
                        Inr (s', Response 200 (AlertBody a),
                             [(ToAll, alert_resolved a (get b ''alertType''))])
               \<and> i < length (selected_alerts (get b ''alertType'') s)
               \<and> JStr (id' (selected_alerts (get b ''alertType'') s ! i)) = get b ''alertId''
               \<and> a = (selected_alerts (get b ''alertType'') s ! i)
                        \<lparr>alert.status := ''resolved'', respondedAt := JStr now\<rparr>
               \<and> alert.status a = ''resolved'' \<and> respondedAt a = JStr now
               \<and> selected_alerts (get b ''alertType'') s' =
                   (selected_alerts (get b ''alertType'') s)[i := a]
               \<and> (\<forall>now2. \<exists>s2 a2.
                     resolve_alert now2 b s' =
                       Inr (s2, Response 200 (AlertBody a2),
                            [(ToAll, alert_resolved a2 (get b ''alertType''))])
                     \<and> alert.status a2 = ''resolved'' \<and> respondedAt a2 = JStr now2)"
    apply (rule exI [of _ i], rule exI [of _ s'], rule exI [of _ a])
    apply (intro conjI allI)
           apply (rule run)
          apply (rule lt)
         apply (rule idi)
        apply (rule a_def)
       apply (rule st)
      apply (rule ra)
     apply (rule sel)
    apply (rule again)
    done
next
  assume "\<forall>x\<in>set (selected_alerts (get b ''alertType'') s). JStr (id' x) \<noteq> get b ''alertId''"
  then have "findIndex (\<lambda>a. JStr (id' a) = get b ''alertId'') (selected_alerts (get b ''alertType'') s) = None"
    by (simp add: findIndex_None_iff)
  from resolve_alert_not_found [OF assms this] show
    "resolve_alert now b s = Inr (s, Response 404 (Failure ''Alert not found''), [])" .
qed

lemma sample_alert_id: "id' sample_alert = ''CAM-ALERT-2-k3x9q2m1z''"
  by (simp add: sample_alert_def camera_alert_def sample_clock_def)

text \<open>
  The id of the one camera alert, asked for in the camera collection (found) and in the
  SOS collection (not found).
\<close>

theorem C3_resolve_alert_witness:
  "\<not> nullish (JObj [(''alertId'', JStr ''CAM-ALERT-2-k3x9q2m1z''), (''alertType'', JStr ''camera'')])
 \<and> (\<exists>x\<in>set (selected_alerts (JStr ''camera'') one_alert_state).
        JStr (id' x) = JStr ''CAM-ALERT-2-k3x9q2m1z'')
 \<and> (\<exists>s'. resolve_alert ''2026-01-02T00:00:00.000Z''
        (JObj [(''alertId'', JStr ''CAM-ALERT-2-k3x9q2m1z''), (''alertType'', JStr ''camera'')])
        one_alert_state =
      Inr (s', Response 200 (AlertBody
             (sample_alert\<lparr>alert.status := ''resolved'',
                            respondedAt := JStr ''2026-01-02T00:00:00.000Z''\<rparr>)),
           [(ToAll, alert_resolved
              (sample_alert\<lparr>alert.status := ''resolved'',
                             respondedAt := JStr ''2026-01-02T00:00:00.000Z''\<rparr>)
              (JStr ''camera''))]))
 \<and> \<not> nullish (JObj [(''alertId'', JStr ''CAM-ALERT-2-k3x9q2m1z''), (''alertType'', JStr ''sos'')])
 \<and> selected_alerts (JStr ''sos'') one_alert_state = []
 \<and> resolve_alert ''2026-01-02T00:00:00.000Z''
        (JObj [(''alertId'', JStr ''CAM-ALERT-2-k3x9q2m1z''), (''alertType'', JStr ''sos'')])
        one_alert_state =
      Inr (one_alert_state, Response 404 (Failure ''Alert not found''), [])"
proof -
  let ?b1 = "JObj [(''alertId'', JStr ''CAM-ALERT-2-k3x9q2m1z''), (''alertType'', JStr ''camera'')]"
  let ?b2 = "JObj [(''alertId'', JStr ''CAM-ALERT-2-k3x9q2m1z''), (''alertType'', JStr ''sos'')]"
  let ?now = "''2026-01-02T00:00:00.000Z''"
  have n1: "\<not> nullish ?b1" and n2: "\<not> nullish ?b2"
    by (simp_all add: nullish_def)
  have g1: "get ?b1 ''alertType'' = JStr ''camera''"
      "get ?b1 ''alertId'' = JStr ''CAM-ALERT-2-k3x9q2m1z''"
    and g2: "get ?b2 ''alertType'' = JStr ''sos''"
      "get ?b2 ''alertId'' = JStr ''CAM-ALERT-2-k3x9q2m1z''"
    by simp_all
  have sel1: "selected_alerts (JStr ''camera'') one_alert_state = [sample_alert]"
    and sel2: "selected_alerts (JStr ''sos'') one_alert_state = []"
    by (simp_all add: selected_alerts_def one_alert_state_def initial_state_def)
  have p1: "\<exists>x\<in>set (selected_alerts (JStr ''camera'') one_alert_state).
              JStr (id' x) = JStr ''CAM-ALERT-2-k3x9q2m1z''"
    by (simp add: sel1 sample_alert_id)
  have p2: "\<forall>x\<in>set (selected_alerts (JStr ''sos'') one_alert_state).
              JStr (id' x) \<noteq> JStr ''CAM-ALERT-2-k3x9q2m1z''"
    by (simp add: sel2)
  note c1 = C3_resolve_alert [OF n1, of one_alert_state ?now, unfolded g1]
  note c2 = C3_resolve_alert [OF n2, of one_alert_state ?now, unfolded g2]
  from c1 p1 obtain i s' a where
    r: "resolve_alert ?now ?b1 one_alert_state =
          Inr (s', Response 200 (AlertBody a), [(ToAll, alert_resolved a (JStr ''camera''))])"
    and i: "i < length (selected_alerts (JStr ''camera'') one_alert_state)"
    and a: "a = (selected_alerts (JStr ''camera'') one_alert_state ! i)
                  \<lparr>alert.status := ''resolved'', respondedAt := JStr ?now\<rparr>"
    by blast
  from i a have "a = sample_alert\<lparr>alert.status := ''resolved'', respondedAt := JStr ?now\<rparr>"
    by (simp add: sel1)
  with r have w1: "\<exists>s'. resolve_alert ?now ?b1 one_alert_state =
      Inr (s', Response 200 (AlertBody
             (sample_alert\<lparr>alert.status := ''resolved'', respondedAt := JStr ?now\<rparr>)),
           [(ToAll, alert_resolved
              (sample_alert\<lparr>alert.status := ''resolved'', respondedAt := JStr ?now\<rparr>)
              (JStr ''camera''))])"
    by blast
  from c2 p2 have w2: "resolve_alert ?now ?b2 one_alert_state =
      Inr (one_alert_state, Response 404 (Failure ''Alert not found''), [])"
    by blast
  from n1 p1 w1 n2 sel2 w2 show ?thesis
    by (intro conjI)
qed

section \<open>Clearing\<close>

text \<open>
  C6. For a request with a body: \<^verbatim>\<open>alertType\<close> \<^verbatim>\<open>camera\<close> empties the camera
  collection and leaves the SOS collection as it was, \<^verbatim>\<open>sos\<close> does the converse, and any
  other value (\<^verbatim>\<open>all\<close>, or none) empties both; the answer carries the number of alerts
  removed.
\<close>

theorem C6_clear_alerts:
  assumes "\<not> nullish b"
  shows "(get b ''alertType'' = JStr ''camera'' \<longrightarrow>
            (\<exists>s'. clear_alerts b s =
                     Inr (s', Response 200 (ClearedBody (length (cameraAlerts s)) ''camera''),
                          [(ToAll, camera_alerts_cleared)])
                 \<and> cameraAlerts s' = [] \<and> sosAlerts s' = sosAlerts s))
       \<and> (get b ''alertType'' = JStr ''sos'' \<longrightarrow>
            (\<exists>s'. clear_alerts b s =
                     Inr (s', Response 200 (ClearedBody (length (sosAlerts s)) ''sos''),
                          [(ToAll, sos_alerts_cleared)])
                 \<and> sosAlerts s' = [] \<and> cameraAlerts s' = cameraAlerts s))
       \<and> (get b ''alertType'' \<noteq> JStr ''camera'' \<and> get b ''alertType'' \<noteq> JStr ''sos'' \<longrightarrow>
            (\<exists>s'. clear_alerts b s =
                     Inr (s', Response 200
                                (ClearedBody (length (cameraAlerts s) + length (sosAlerts s)) ''all''),
                          [(ToAll, all_alerts_cleared)])
                 \<and> cameraAlerts s' = [] \<and> sosAlerts s' = []))"
  using assms by (simp add: clear_alerts_def Let_def)

text \<open>The three kinds of request at a state with one alert in each collection.\<close>

theorem C6_clear_alerts_witness:
  "\<not> nullish (JObj [(''alertType'', JStr ''camera'')])
 \<and> get (JObj [(''alertType'', JStr ''camera'')]) ''alertType'' = JStr ''camera''
 \<and> (\<exists>s'. clear_alerts (JObj [(''alertType'', JStr ''camera'')]) two_kind_state =
             Inr (s', Response 200 (ClearedBody 1 ''camera''), [(ToAll, camera_alerts_cleared)])
         \<and> cameraAlerts s' = [] \<and> sosAlerts s' = [sample_sos_alert])
 \<and> \<not> nullish (JObj [(''alertType'', JStr ''sos'')])
 \<and> get (JObj [(''alertType'', JStr ''sos'')]) ''alertType'' = JStr ''sos''
 \<and> (\<exists>s'. clear_alerts (JObj [(''alertType'', JStr ''sos'')]) two_kind_state =
             Inr (s', Response 200 (ClearedBody 1 ''sos''), [(ToAll, sos_alerts_cleared)])
         \<and> sosAlerts s' = [] \<and> cameraAlerts s' = [sample_alert])
 \<and> \<not> nullish (JObj [(''alertType'', JStr ''all'')])
 \<and> get (JObj [(''alertType'', JStr ''all'')]) ''alertType'' \<noteq> JStr ''camera''
 \<and> get (JObj [(''alertType'', JStr ''all'')]) ''alertType'' \<noteq> JStr ''sos''
 \<and> (\<exists>s'. clear_alerts (JObj [(''alertType'', JStr ''all'')]) two_kind_state =
             Inr (s', Response 200 (ClearedBody 2 ''all''), [(ToAll, all_alerts_cleared)])
         \<and> cameraAlerts s' = [] \<and> sosAlerts s' = [])"
proof -
  let ?c = "JObj [(''alertType'', JStr ''camera'')]"
  let ?s = "JObj [(''alertType'', JStr ''sos'')]"
  let ?a = "JObj [(''alertType'', JStr ''all'')]"
  have n: "\<not> nullish ?c" "\<not> nullish ?s" "\<not> nullish ?a"
    by (simp_all add: nullish_def)
  have g: "get ?c ''alertType'' = JStr ''camera''" "get ?s ''alertType'' = JStr ''sos''"
    "get ?a ''alertType'' \<noteq> JStr ''camera''" "get ?a ''alertType'' \<noteq> JStr ''sos''"
    by simp_all
  have len: "length (cameraAlerts two_kind_state) = 1" "length (sosAlerts two_kind_state) = 1"
    "cameraAlerts two_kind_state = [sample_alert]"
    "sosAlerts two_kind_state = [sample_sos_alert]"
    by (simp_all add: two_kind_state_def)
  note c = C6_clear_alerts [OF n(1), of two_kind_state]
  note s = C6_clear_alerts [OF n(2), of two_kind_state]
  note a = C6_clear_alerts [OF n(3), of two_kind_state]
  from c g(1) have r1: "\<exists>s'. clear_alerts ?c two_kind_state =
             Inr (s', Response 200 (ClearedBody 1 ''camera''), [(ToAll, camera_alerts_cleared)])
         \<and> cameraAlerts s' = [] \<and> sosAlerts s' = [sample_sos_alert]"
    by (simp add: len)
  from s g(2) have r2: "\<exists>s'. clear_alerts ?s two_kind_state =
             Inr (s', Response 200 (ClearedBody 1 ''sos''), [(ToAll, sos_alerts_cleared)])
         \<and> sosAlerts s' = [] \<and> cameraAlerts s' = [sample_alert]"
    by (simp add: len)
  from a g(3,4) have r3: "\<exists>s'. clear_alerts ?a two_kind_state =
             Inr (s', Response 200 (ClearedBody 2 ''all''), [(ToAll, all_alerts_cleared)])
         \<and> cameraAlerts s' = [] \<and> sosAlerts s' = []"
    by (simp add: len numeral_2_eq_2)
  from n g r1 r2 r3 show ?thesis
    by (intro conjI)
qed

section \<open>Defaults and coercions at ingestion\<close>


lemma num_lor_not_zero: "\<not> is_zero d \<Longrightarrow> \<not> is_zero (num_lor x d)"
  by (cases x) (simp_all add: num_lor_def)

lemma fallback_not_zero: "\<not> is_zero fallback_lat" "\<not> is_zero fallback_lng"
  by (simp_all add: fallback_lat_def fallback_lng_def)

lemma hd_unshift_capped: "hd (unshift_capped a xs) = a"
  by (cases xs) (simp_all add: unshift_capped_def Let_def MAX_ALERTS_def)

text \<open>The handlers once the alert is built: it is stored, whatever comes after.\<close>

lemma send_alert_built:
  assumes "apiKey req = JStr API_KEY" and "\<not> nullish (body req)"
    and "build_camera_alert rt clk (body req) = Inr a"
  shows "send_alert rt clk req s =
           (s\<lparr>cameraAlerts := unshift_capped a (cameraAlerts s)\<rparr>,
            if throws rt (place a) \<or> throws rt (threatLevel a)
            then (Response 500 (FailureError TypeError), [])
            else (Response 200 (AlertBody a), [(ToAll, new_camera_alert a)]))"
  using assms
  by (cases "ToString rt (place a)"; cases "ToString rt (threatLevel a)")
     (simp_all add: send_alert_def Let_def throws_def js_error_TypeError)


lemma send_sos_alert_built:
  assumes "apiKey req = JStr API_KEY" and "\<not> nullish (body req)"
    and "build_sos_alert rt clk (body req) = Inr a"
  shows "send_sos_alert rt clk req s =
           (s\<lparr>sosAlerts := unshift_capped a (sosAlerts s)\<rparr>,
            if throws rt (userName a)
            then (Response 500 (FailureError TypeError), [])
            else (Response 200 (AlertBody a), [(ToAll, new_sos_alert a)]))"
  using assms
  by (cases "ToString rt (userName a)")
     (simp_all add: send_sos_alert_def Let_def throws_def js_error_TypeError)


lemma build_camera_alert_Inr:
  assumes "lor (get a ''severity'') (JStr ''MEDIUM'') = JStr sev"
    and "parseFloat rt (get a ''lat'') = Inr la"
    and "parseFloat rt (get a ''lng'') = Inr ln"
    and "parseInt rt (get a ''personCount'') = Inr pc"
    and "parseFloat rt (get a ''motionIntensity'') = Inr mi"
    and "parseInt rt (get a ''brightnessLevel'') = Inr bl"
  shows "build_camera_alert rt clk a = Inr (camera_alert rt clk a sev la ln pc mi bl)"
  using assms by (simp add: build_camera_alert_def)

lemma build_camera_alert_Inl:
  assumes "(\<forall>sev. lor (get a ''severity'') (JStr ''MEDIUM'') \<noteq> JStr sev)
         \<or> throws rt (get a ''lat'') \<or> throws rt (get a ''lng'')
         \<or> throws rt (get a ''personCount'') \<or> throws rt (get a ''motionIntensity'')
         \<or> throws rt (get a ''brightnessLevel'')"
  shows "build_camera_alert rt clk a = Inl TypeError"
proof (cases "lor (get a ''severity'') (JStr ''MEDIUM'')")
  case (JStr sev)
  with assms have "throws rt (get a ''lat'') \<or> throws rt (get a ''lng'')
         \<or> throws rt (get a ''personCount'') \<or> throws rt (get a ''motionIntensity'')
         \<or> throws rt (get a ''brightnessLevel'')"
    by simp
  then show ?thesis
    by (auto simp: build_camera_alert_def JStr js_error_TypeError parse_Inr_not_throws
          split: sum.splits)
qed (simp_all add: build_camera_alert_def)

lemma build_sos_alert_Inr:
  assumes "parseFloat rt (get a ''lat'') = Inr la" and "parseFloat rt (get a ''lng'') = Inr ln"
  shows "build_sos_alert rt clk a = Inr (sos_alert clk a la ln)"
  using assms by (simp add: build_sos_alert_def)

lemma build_sos_alert_Inl:
  assumes "throws rt (get a ''lat'') \<or> throws rt (get a ''lng'')"
  shows "build_sos_alert rt clk a = Inl TypeError"
  using assms
  by (auto simp: build_sos_alert_def js_error_TypeError parse_Inr_not_throws split: sum.splits)




section \<open>Zero coordinates at ingestion\<close>

lemma num_lor_zero: "is_zero x \<Longrightarrow> num_lor x d = d"
  by (cases x) (simp_all add: num_lor_def)

lemma built_camera_not_zero:
  assumes "build_camera_alert rt clk b = Inr a"
  shows "\<not> is_zero (alert.lat a) \<and> \<not> is_zero (alert.lng a)"
  using assms
  by (auto simp: build_camera_alert_def camera_alert_def num_lor_not_zero fallback_not_zero
        split: jsval.splits sum.splits)

lemma built_sos_not_zero:
  assumes "build_sos_alert rt clk b = Inr a"
  shows "\<not> is_zero (alert.lat a) \<and> \<not> is_zero (alert.lng a)"
  using assms
  by (auto simp: build_sos_alert_def sos_alert_def num_lor_not_zero fallback_not_zero
        split: sum.splits)

lemma inserted_not_zero:
  assumes "inserted_by rt r = Some a"
  shows "\<not> is_zero (alert.lat a) \<and> \<not> is_zero (alert.lng a)"
proof (cases r)
  case (SendAlert clk req)
  with assms have "build_camera_alert rt clk (body req) = Inr a"
    by (auto split: if_splits sum.splits)
  then show ?thesis
    by (rule built_camera_not_zero)
next
  case (SendSosAlert clk req)
  with assms have "build_sos_alert rt clk (body req) = Inr a"
    by (auto split: if_splits sum.splits)
  then show ?thesis
    by (rule built_sos_not_zero)
qed

lemma set_unshift_capped: "set (unshift_capped a xs) \<subseteq> insert a (set xs)"
proof -
  have "set (butlast (a # xs)) \<subseteq> set (a # xs)"
    by (rule subsetI) (rule in_set_butlastD)
  then show ?thesis
    by (auto simp: unshift_capped_def Let_def)
qed

lemma ingest_no_zero:
  assumes "x \<in> set (cameraAlerts (fst (ingest rt r s))) \<union> set (sosAlerts (fst (ingest rt r s)))"
  shows "x \<in> set (cameraAlerts s) \<union> set (sosAlerts s)
       \<or> (\<not> is_zero (alert.lat x) \<and> \<not> is_zero (alert.lng x))"
proof (cases "inserted_by rt r")
  case None
  with assms show ?thesis
    by (cases r) (simp_all add: send_alert_collections send_sos_alert_collections
        del: inserted_by.simps)
next
  case (Some a)
  note nz = inserted_not_zero [OF Some]
  from assms Some have "x = a \<or> x \<in> set (cameraAlerts s) \<union> set (sosAlerts s)"
    using set_unshift_capped [of a "cameraAlerts s"] set_unshift_capped [of a "sosAlerts s"]
    by (cases r) (auto simp: send_alert_collections send_sos_alert_collections
        simp del: inserted_by.simps)
  with nz show ?thesis
    by auto
qed

lemma ingest_all_no_zero:
  "x \<in> set (cameraAlerts (fst (ingest_all rt rs s))) \<union> set (sosAlerts (fst (ingest_all rt rs s)))
   \<Longrightarrow> x \<in> set (cameraAlerts s) \<union> set (sosAlerts s)
       \<or> (\<not> is_zero (alert.lat x) \<and> \<not> is_zero (alert.lng x))"
proof (induction rs arbitrary: s)
  case Nil
  then show ?case by simp
next
  case (Cons r rs)
  have run: "fst (ingest_all rt (r # rs) s) = fst (ingest_all rt rs (fst (ingest rt r s)))"
    by (simp add: split_def)
  from Cons.prems have
    "x \<in> set (cameraAlerts (fst (ingest_all rt rs (fst (ingest rt r s)))))
       \<union> set (sosAlerts (fst (ingest_all rt rs (fst (ingest rt r s)))))"
    unfolding run .
  from Cons.IH [OF this] ingest_no_zero [of x rt r s] show ?case
    by blast
qed

text \<open>
  C10. A camera request stores an alert exactly when the key is right, the body is there,
  the severity is absent, falsy or a string, and the five parsed fields can be converted
  to strings; an SOS request, exactly when the key is right, the body is there and the two
  coordinates can be converted. In the alert that is stored, a \<^verbatim>\<open>lat\<close> or \<^verbatim>\<open>lng\<close> that
  parsed to the number 0 is the fallback value 11.1085 or 77.3411, and neither coordinate
  is 0. Every other request leaves the state as it was. Hence, after any run of ingestion
  requests, every alert of the two collections that was not there before has coordinates
  that are not 0.
\<close>

theorem C10_zero_coordinate_falls_back:
  "(\<forall>sev la ln pc mi bl.
       apiKey req = JStr API_KEY \<and> \<not> nullish (body req)
     \<and> lor (get (body req) ''severity'') (JStr ''MEDIUM'') = JStr sev
     \<and> parseFloat rt (get (body req) ''lat'') = Inr la
     \<and> parseFloat rt (get (body req) ''lng'') = Inr ln
     \<and> parseInt rt (get (body req) ''personCount'') = Inr pc
     \<and> parseFloat rt (get (body req) ''motionIntensity'') = Inr mi
     \<and> parseInt rt (get (body req) ''brightnessLevel'') = Inr bl \<longrightarrow>
       (\<exists>a. fst (send_alert rt clk req s) =
               s\<lparr>cameraAlerts := unshift_capped a (cameraAlerts s)\<rparr>
           \<and> hd (unshift_capped a (cameraAlerts s)) = a
           \<and> (is_zero la \<longrightarrow> alert.lat a = fallback_lat)
           \<and> (is_zero ln \<longrightarrow> alert.lng a = fallback_lng)
           \<and> \<not> is_zero (alert.lat a) \<and> \<not> is_zero (alert.lng a)))
 \<and> (apiKey req \<noteq> JStr API_KEY \<or> nullish (body req)
     \<or> (\<forall>sev. lor (get (body req) ''severity'') (JStr ''MEDIUM'') \<noteq> JStr sev)
     \<or> throws rt (get (body req) ''lat'') \<or> throws rt (get (body req) ''lng'')
     \<or> throws rt (get (body req) ''personCount'')
     \<or> throws rt (get (body req) ''motionIntensity'')
     \<or> throws rt (get (body req) ''brightnessLevel'') \<longrightarrow>
       fst (send_alert rt clk req s) = s)
 \<and> (\<forall>la ln.
       apiKey req = JStr API_KEY \<and> \<not> nullish (body req)
     \<and> parseFloat rt (get (body req) ''lat'') = Inr la
     \<and> parseFloat rt (get (body req) ''lng'') = Inr ln \<longrightarrow>
       (\<exists>a. fst (send_sos_alert rt clk req s) =
               s\<lparr>sosAlerts := unshift_capped a (sosAlerts s)\<rparr>
           \<and> hd (unshift_capped a (sosAlerts s)) = a
           \<and> (is_zero la \<longrightarrow> alert.lat a = fallback_lat)
           \<and> (is_zero ln \<longrightarrow> alert.lng a = fallback_lng)
           \<and> \<not> is_zero (alert.lat a) \<and> \<not> is_zero (alert.lng a)))
 \<and> (apiKey req \<noteq> JStr API_KEY \<or> nullish (body req)
     \<or> throws rt (get (body req) ''lat'') \<or> throws rt (get (body req) ''lng'') \<longrightarrow>
       fst (send_sos_alert rt clk req s) = s)
 \<and> (\<forall>x \<in> set (cameraAlerts (fst (ingest_all rt rs s0)))
          \<union> set (sosAlerts (fst (ingest_all rt rs s0))).
       x \<in> set (cameraAlerts s0) \<union> set (sosAlerts s0)
     \<or> (\<not> is_zero (alert.lat x) \<and> \<not> is_zero (alert.lng x)))
 \<and> fallback_lat = Fin 111085 (- 4) \<and> fallback_lng = Fin 773411 (- 4)"
proof (intro conjI allI impI ballI)
  fix sev la ln pc mi bl
  assume h: "apiKey req = JStr API_KEY \<and> \<not> nullish (body req)
     \<and> lor (get (body req) ''severity'') (JStr ''MEDIUM'') = JStr sev
     \<and> parseFloat rt (get (body req) ''lat'') = Inr la
     \<and> parseFloat rt (get (body req) ''lng'') = Inr ln
     \<and> parseInt rt (get (body req) ''personCount'') = Inr pc
     \<and> parseFloat rt (get (body req) ''motionIntensity'') = Inr mi
     \<and> parseInt rt (get (body req) ''brightnessLevel'') = Inr bl"
  let ?a = "camera_alert rt clk (body req) sev la ln pc mi bl"
  from h have key: "apiKey req = JStr API_KEY" and nb: "\<not> nullish (body req)"
    and sev: "lor (get (body req) ''severity'') (JStr ''MEDIUM'') = JStr sev"
    and la: "parseFloat rt (get (body req) ''lat'') = Inr la"
    and ln: "parseFloat rt (get (body req) ''lng'') = Inr ln"
    and pc: "parseInt rt (get (body req) ''personCount'') = Inr pc"
    and mi: "parseFloat rt (get (body req) ''motionIntensity'') = Inr mi"
    and bl: "parseInt rt (get (body req) ''brightnessLevel'') = Inr bl"
    by simp_all
  note built = build_camera_alert_Inr [OF sev la ln pc mi bl, of clk]
  note nz = built_camera_not_zero [OF built]
  show "\<exists>a. fst (send_alert rt clk req s) =
               s\<lparr>cameraAlerts := unshift_capped a (cameraAlerts s)\<rparr>
           \<and> hd (unshift_capped a (cameraAlerts s)) = a
           \<and> (is_zero la \<longrightarrow> alert.lat a = fallback_lat)
           \<and> (is_zero ln \<longrightarrow> alert.lng a = fallback_lng)
           \<and> \<not> is_zero (alert.lat a) \<and> \<not> is_zero (alert.lng a)"
    apply (rule exI [of _ ?a])
    apply (intro conjI)
         apply (simp add: send_alert_built [OF key nb built])
        apply (rule hd_unshift_capped)
       apply (simp add: camera_alert_def num_lor_zero)
      apply (simp add: camera_alert_def num_lor_zero)
     apply (rule nz [THEN conjunct1])
    apply (rule nz [THEN conjunct2])
    done
next
  assume h: "apiKey req \<noteq> JStr API_KEY \<or> nullish (body req)
     \<or> (\<forall>sev. lor (get (body req) ''severity'') (JStr ''MEDIUM'') \<noteq> JStr sev)
     \<or> throws rt (get (body req) ''lat'') \<or> throws rt (get (body req) ''lng'')
     \<or> throws rt (get (body req) ''personCount'')
     \<or> throws rt (get (body req) ''motionIntensity'')
     \<or> throws rt (get (body req) ''brightnessLevel'')"
  show "fst (send_alert rt clk req s) = s"
  proof (cases "apiKey req \<noteq> JStr API_KEY \<or> nullish (body req)")
    case True
    then show ?thesis
      by (auto simp: send_alert_def)
  next
    case False
    with h have "build_camera_alert rt clk (body req) = Inl TypeError"
      by (intro build_camera_alert_Inl) simp
    with False show ?thesis
      by (simp add: send_alert_def)
  qed
next
  fix la ln
  assume h: "apiKey req = JStr API_KEY \<and> \<not> nullish (body req)
     \<and> parseFloat rt (get (body req) ''lat'') = Inr la
     \<and> parseFloat rt (get (body req) ''lng'') = Inr ln"
  let ?a = "sos_alert clk (body req) la ln"
  from h have key: "apiKey req = JStr API_KEY" and nb: "\<not> nullish (body req)"
    and la: "parseFloat rt (get (body req) ''lat'') = Inr la"
    and ln: "parseFloat rt (get (body req) ''lng'') = Inr ln"
    by simp_all
  note built = build_sos_alert_Inr [OF la ln, of clk]
  note nz = built_sos_not_zero [OF built]
  show "\<exists>a. fst (send_sos_alert rt clk req s) =
               s\<lparr>sosAlerts := unshift_capped a (sosAlerts s)\<rparr>
           \<and> hd (unshift_capped a (sosAlerts s)) = a
           \<and> (is_zero la \<longrightarrow> alert.lat a = fallback_lat)
           \<and> (is_zero ln \<longrightarrow> alert.lng a = fallback_lng)
           \<and> \<not> is_zero (alert.lat a) \<and> \<not> is_zero (alert.lng a)"
    apply (rule exI [of _ ?a])
    apply (intro conjI)
         apply (simp add: send_sos_alert_built [OF key nb built])
        apply (rule hd_unshift_capped)
       apply (simp add: sos_alert_def num_lor_zero)
      apply (simp add: sos_alert_def num_lor_zero)
     apply (rule nz [THEN conjunct1])
    apply (rule nz [THEN conjunct2])
    done
next
  assume h: "apiKey req \<noteq> JStr API_KEY \<or> nullish (body req)
     \<or> throws rt (get (body req) ''lat'') \<or> throws rt (get (body req) ''lng'')"
  show "fst (send_sos_alert rt clk req s) = s"
  proof (cases "apiKey req \<noteq> JStr API_KEY \<or> nullish (body req)")
    case True
    then show ?thesis
      by (auto simp: send_sos_alert_def)
  next
    case False
    with h have "build_sos_alert rt clk (body req) = Inl TypeError"
      by (intro build_sos_alert_Inl) simp
    with False show ?thesis
      by (simp add: send_sos_alert_def)
  qed
next
  fix x
  assume "x \<in> set (cameraAlerts (fst (ingest_all rt rs s0)))
          \<union> set (sosAlerts (fst (ingest_all rt rs s0)))"
  then show "x \<in> set (cameraAlerts s0) \<union> set (sosAlerts s0)
     \<or> (\<not> is_zero (alert.lat x) \<and> \<not> is_zero (alert.lng x))"
    by (rule ingest_all_no_zero)
next
  show "fallback_lat = Fin 111085 (- 4)"
    by (simp add: fallback_lat_def)
next
  show "fallback_lng = Fin 773411 (- 4)"
    by (simp add: fallback_lng_def)
qed

text \<open>
  The string \<^verbatim>\<open>"0"\<close> as latitude and the number 0 as longitude, to both handlers; the
  same latitude with the number 7 as severity, and with a wrong key; the run that consists
  of the first request.
\<close>

theorem C10_zero_coordinate_witness:
  "apiKey zero_request = JStr API_KEY \<and> \<not> nullish (body zero_request)
 \<and> parseFloat sample_runtime (get (body zero_request) ''lat'') = Inr (Fin 0 0)
 \<and> parseFloat sample_runtime (get (body zero_request) ''lng'') = Inr (Fin 0 0)
 \<and> is_zero (Fin 0 0)
 \<and> (\<exists>a. fst (send_alert sample_runtime (sample_clock ''9'') zero_request initial_state) =
            initial_state\<lparr>cameraAlerts := [a]\<rparr>
        \<and> alert.lat a = Fin 111085 (- 4) \<and> alert.lng a = Fin 773411 (- 4))
 \<and> (\<exists>a. fst (send_sos_alert sample_runtime (sample_clock ''9'') zero_request initial_state) =
            initial_state\<lparr>sosAlerts := [a]\<rparr>
        \<and> alert.lat a = Fin 111085 (- 4) \<and> alert.lng a = Fin 773411 (- 4))
 \<and> fst (send_alert sample_runtime (sample_clock ''9'')
          \<lparr>apiKey = JStr ''secure_key_123'',
           body = JObj [(''lat'', JStr ''0''), (''severity'', JNum (Fin 7 0))]\<rparr> initial_state)
     = initial_state
 \<and> fst (send_sos_alert sample_runtime (sample_clock ''9'')
          \<lparr>apiKey = JStr ''wrong'', body = JObj [(''lat'', JStr ''0'')]\<rparr> initial_state)
     = initial_state
 \<and> (\<exists>x. x \<in> set (cameraAlerts (fst (ingest_all sample_runtime
                   [SendAlert (sample_clock ''9'') zero_request] initial_state)))
        \<and> x \<notin> set (cameraAlerts initial_state) \<union> set (sosAlerts initial_state)
        \<and> \<not> is_zero (alert.lat x) \<and> \<not> is_zero (alert.lng x))"
proof -
  let ?r7 = "\<lparr>apiKey = JStr ''secure_key_123'',
              body = JObj [(''lat'', JStr ''0''), (''severity'', JNum (Fin 7 0))]\<rparr>"
  let ?rw = "\<lparr>apiKey = JStr ''wrong'', body = JObj [(''lat'', JStr ''0'')]\<rparr>"
  let ?run = "[SendAlert (sample_clock ''9'') zero_request]"
  note rt = sample_runtime_undefined
  note ev = sample_runtime_values
  have k: "apiKey zero_request = JStr API_KEY" and n: "\<not> nullish (body zero_request)"
    by (simp_all add: zero_request_def API_KEY_def nullish_def)
  have z: "parseFloat sample_runtime (get (body zero_request) ''lat'') = Inr (Fin 0 0)"
    "parseFloat sample_runtime (get (body zero_request) ''lng'') = Inr (Fin 0 0)"
    by (simp_all add: zero_request_def ev)
  have h1: "apiKey zero_request = JStr API_KEY \<and> \<not> nullish (body zero_request)
     \<and> lor (get (body zero_request) ''severity'') (JStr ''MEDIUM'') = JStr ''MEDIUM''
     \<and> parseFloat sample_runtime (get (body zero_request) ''lat'') = Inr (Fin 0 0)
     \<and> parseFloat sample_runtime (get (body zero_request) ''lng'') = Inr (Fin 0 0)
     \<and> parseInt sample_runtime (get (body zero_request) ''personCount'') = Inr NaN
     \<and> parseFloat sample_runtime (get (body zero_request) ''motionIntensity'') = Inr NaN
     \<and> parseInt sample_runtime (get (body zero_request) ''brightnessLevel'') = Inr NaN"
    using k n z by (simp add: zero_request_def lor_def parse_undefined rt)
  have h2: "apiKey ?r7 \<noteq> JStr API_KEY \<or> nullish (body ?r7)
     \<or> (\<forall>sev. lor (get (body ?r7) ''severity'') (JStr ''MEDIUM'') \<noteq> JStr sev)
     \<or> throws sample_runtime (get (body ?r7) ''lat'')
     \<or> throws sample_runtime (get (body ?r7) ''lng'')
     \<or> throws sample_runtime (get (body ?r7) ''personCount'')
     \<or> throws sample_runtime (get (body ?r7) ''motionIntensity'')
     \<or> throws sample_runtime (get (body ?r7) ''brightnessLevel'')"
    by (simp add: lor_def)
  have h3: "apiKey zero_request = JStr API_KEY \<and> \<not> nullish (body zero_request)
     \<and> parseFloat sample_runtime (get (body zero_request) ''lat'') = Inr (Fin 0 0)
     \<and> parseFloat sample_runtime (get (body zero_request) ''lng'') = Inr (Fin 0 0)"
    using k n z by simp
  have h4: "apiKey ?rw \<noteq> JStr API_KEY \<or> nullish (body ?rw)
     \<or> throws sample_runtime (get (body ?rw) ''lat'')
     \<or> throws sample_runtime (get (body ?rw) ''lng'')"
    by (simp add: API_KEY_def)
  note c1 = C10_zero_coordinate_falls_back [where rt = sample_runtime
      and clk = "sample_clock ''9''" and s = initial_state and req = zero_request,
      THEN conjunct1, rule_format, OF h1]
  note c2 = C10_zero_coordinate_falls_back [where rt = sample_runtime
      and clk = "sample_clock ''9''" and s = initial_state and req = ?r7,
      THEN conjunct2, THEN conjunct1, rule_format, OF h2]
  note c3 = C10_zero_coordinate_falls_back [where rt = sample_runtime
      and clk = "sample_clock ''9''" and s = initial_state and req = zero_request,
      THEN conjunct2, THEN conjunct2, THEN conjunct1, rule_format, OF h3]
  note c4 = C10_zero_coordinate_falls_back [where rt = sample_runtime
      and clk = "sample_clock ''9''" and s = initial_state and req = ?rw,
      THEN conjunct2, THEN conjunct2, THEN conjunct2, THEN conjunct1, rule_format, OF h4]
  note c5 = C10_zero_coordinate_falls_back [where rt = sample_runtime
      and rs = ?run and ?s0.0 = initial_state,
      THEN conjunct2, THEN conjunct2, THEN conjunct2, THEN conjunct2, THEN conjunct1]
  have e: "unshift_capped a (cameraAlerts initial_state) = [a]"
    "unshift_capped a (sosAlerts initial_state) = [a]" for a
    by (simp_all add: unshift_capped_def initial_state_def MAX_ALERTS_def)
  have zz: "is_zero (Fin 0 0)"
    by simp
  from c1 obtain a1 where a1:
    "fst (send_alert sample_runtime (sample_clock ''9'') zero_request initial_state) =
       initial_state\<lparr>cameraAlerts := [a1]\<rparr>"
    "alert.lat a1 = fallback_lat" "alert.lng a1 = fallback_lng"
    unfolding e using zz by (elim exE conjE) simp
  from c3 obtain a3 where a3:
    "fst (send_sos_alert sample_runtime (sample_clock ''9'') zero_request initial_state) =
       initial_state\<lparr>sosAlerts := [a3]\<rparr>"
    "alert.lat a3 = fallback_lat" "alert.lng a3 = fallback_lng"
    unfolding e using zz by (elim exE conjE) simp
  have w1: "\<exists>a. fst (send_alert sample_runtime (sample_clock ''9'') zero_request initial_state) =
            initial_state\<lparr>cameraAlerts := [a]\<rparr>
        \<and> alert.lat a = Fin 111085 (- 4) \<and> alert.lng a = Fin 773411 (- 4)"
    using a1 by (intro exI [of _ a1]) (simp add: fallback_lat_def fallback_lng_def)
  have w3: "\<exists>a. fst (send_sos_alert sample_runtime (sample_clock ''9'') zero_request initial_state) =
            initial_state\<lparr>sosAlerts := [a]\<rparr>
        \<and> alert.lat a = Fin 111085 (- 4) \<and> alert.lng a = Fin 773411 (- 4)"
    using a3 by (intro exI [of _ a3]) (simp add: fallback_lat_def fallback_lng_def)
  have run: "fst (ingest_all sample_runtime ?run initial_state) =
               fst (send_alert sample_runtime (sample_clock ''9'') zero_request initial_state)"
    by (simp add: split_def)
  have mem: "a1 \<in> set (cameraAlerts (fst (ingest_all sample_runtime ?run initial_state)))"
    unfolding run a1(1) by simp
  have new: "a1 \<notin> set (cameraAlerts initial_state) \<union> set (sosAlerts initial_state)"
    by (simp add: initial_state_def)
  from mem have "a1 \<in> set (cameraAlerts (fst (ingest_all sample_runtime ?run initial_state)))
                    \<union> set (sosAlerts (fst (ingest_all sample_runtime ?run initial_state)))"
    by simp
  from c5 [THEN bspec, OF this] new
  have nz: "\<not> is_zero (alert.lat a1) \<and> \<not> is_zero (alert.lng a1)"
    by simp
  have w5: "\<exists>x. x \<in> set (cameraAlerts (fst (ingest_all sample_runtime ?run initial_state)))
        \<and> x \<notin> set (cameraAlerts initial_state) \<union> set (sosAlerts initial_state)
        \<and> \<not> is_zero (alert.lat x) \<and> \<not> is_zero (alert.lng x)"
    using mem new nz by (intro exI [of _ a1]) simp
  from k n z zz w1 w3 c2 c4 w5 show ?thesis
    by (intro conjI)
qed

section \<open>Presence and tracking\<close>

lemma Map_get_set: "Map_get (Map_set k v m) k' = (if k' = k then Some v else Map_get m k')"
  by (simp add: Map_get_def Map_set_def update_conv')

lemma Map_get_delete: "Map_get (Map_delete k m) k' = (if k' = k then None else Map_get m k')"
  by (simp add: Map_get_def Map_delete_def delete_conv')

lemma Map_delete_keys: "k \<notin> fst ` set (Map_delete k m)"
  by (simp add: Map_delete_def delete_notin_dom)

text \<open>The sample states are states the server reaches.\<close>

lemma one_alert_state_reached:
  "send_alert sample_runtime (sample_clock ''2'')
     \<lparr>apiKey = JStr ''secure_key_123'', body = JObj [(''place'', JStr ''Main St'')]\<rparr>
     initial_state =
   (one_alert_state, Response 200 (AlertBody sample_alert), [(ToAll, new_camera_alert sample_alert)])"
  by (simp add: send_alert_def API_KEY_def nullish_def Let_def unshift_capped_def
        MAX_ALERTS_def one_alert_state_def initial_state_def build_sample_alert)
     (simp add: sample_alert_def camera_alert_def lor_def)

lemma tracking_state_reached:
  "socket_run sample_runtime
     [(''sock1'', OfficerLogin ''2026-01-01T08:00:00.000Z'' sample_login),
      (''sock1'', StartTracking ''2026-01-01T08:05:00.000Z'' sample_track)]
     one_alert_state =
   (tracking_state,
    [(ToAll, officers_updated [sample_officer]),
     (ToSocket ''sock1'',
      tracking_started True ''Tracking activated'' (JStr ''CAM-ALERT-2-k3x9q2m1z'')),
     (ToAll, tracking_update ''sock1'' sample_tracking)],
    Returned)"
  by code_simp

lemma equator_state_reached:
  "socket_run sample_runtime
     [(''sock1'', OfficerLogin ''2026-01-01T08:00:00.000Z'' sample_login),
      (''sock1'', UpdateLocation (JObj [(''lat'', JNum (Fin 0 0)), (''lng'', JStr ''78.5'')]))]
     initial_state =
   (equator_state, [(ToAll, officers_updated [sample_officer])], Returned)"
  by code_simp

text \<open>
  Against C5 as stated (a stop notice is broadcast on disconnect): the officer on
  \<^verbatim>\<open>sock1\<close> has a tracking session, and the disconnect of \<^verbatim>\<open>sock1\<close> emits nothing.
\<close>

theorem C5_disconnect_stop_notice_counterexample:
  "Map_get (activeTracking tracking_state) ''sock1'' = Some sample_tracking
 \<and> disconnect ''sock1'' tracking_state = (one_alert_state, [])
 \<and> (ToAll, tracking_stopped ''sock1'') \<notin> set (snd (disconnect ''sock1'' tracking_state))"
  by (simp add: disconnect_def tracking_state_def one_alert_state_def initial_state_def
        Map_delete_def Map_get_def)

text \<open>
  C5, amended. When a connection disconnects, its presence entry and its tracking session
  are removed, so that \<^verbatim>\<open>GET /tracking-data\<close> lists the connection neither among the
  officers nor among the sessions; the entries of the other connections and the alert
  collections stay; and the handler emits no event at all: no stop notice and no
  roster-changed broadcast.
\<close>

theorem C5_disconnect_removes_silently:
  "Map_get (connectedOfficers (fst (disconnect sid s))) sid = None
 \<and> Map_get (activeTracking (fst (disconnect sid s))) sid = None
 \<and> sid \<notin> fst ` set (fst (tracking_data (fst (disconnect sid s))))
 \<and> sid \<notin> fst ` set (snd (tracking_data (fst (disconnect sid s))))
 \<and> (\<forall>other. other \<noteq> sid \<longrightarrow>
        Map_get (connectedOfficers (fst (disconnect sid s))) other =
          Map_get (connectedOfficers s) other
      \<and> Map_get (activeTracking (fst (disconnect sid s))) other =
          Map_get (activeTracking s) other)
 \<and> cameraAlerts (fst (disconnect sid s)) = cameraAlerts s
 \<and> sosAlerts (fst (disconnect sid s)) = sosAlerts s
 \<and> snd (disconnect sid s) = []"
  by (simp add: disconnect_def tracking_data_def Map_get_delete Map_delete_keys)

text \<open>Two officers, of whom the one on \<^verbatim>\<open>sock1\<close> disconnects.\<close>

theorem C5_disconnect_removes_silently_witness:
  "''sock2'' \<noteq> ''sock1''
 \<and> Map_get (connectedOfficers
       (fst (disconnect ''sock1''
          (tracking_state\<lparr>connectedOfficers :=
             [(''sock1'', sample_officer), (''sock2'', sample_officer)]\<rparr>)))) ''sock1'' = None
 \<and> Map_get (connectedOfficers
       (fst (disconnect ''sock1''
          (tracking_state\<lparr>connectedOfficers :=
             [(''sock1'', sample_officer), (''sock2'', sample_officer)]\<rparr>)))) ''sock2''
     = Some sample_officer
 \<and> Map_get (activeTracking
       (fst (disconnect ''sock1''
          (tracking_state\<lparr>connectedOfficers :=
             [(''sock1'', sample_officer), (''sock2'', sample_officer)]\<rparr>)))) ''sock1'' = None
 \<and> snd (disconnect ''sock1''
       (tracking_state\<lparr>connectedOfficers :=
          [(''sock1'', sample_officer), (''sock2'', sample_officer)]\<rparr>)) = []"
proof -
  let ?s = "tracking_state\<lparr>connectedOfficers :=
              [(''sock1'', sample_officer), (''sock2'', sample_officer)]\<rparr>"
  have ne: "''sock2'' \<noteq> ''sock1''"
    by simp
  have before: "Map_get (connectedOfficers ?s) ''sock2'' = Some sample_officer"
    by (simp add: Map_get_def)
  note c = C5_disconnect_removes_silently [of "''sock1''" ?s]
  from c ne before show ?thesis
    by simp
qed

section \<open>Starting a tracking session\<close>

lemma start_tracking_throws:
  assumes "nullish d \<or> throws rt (get d ''alertId'') \<or> throws rt (get d ''alertLat'')
         \<or> throws rt (get d ''alertLng'')"
  shows "start_tracking rt sid now d s = (s, [], Threw TypeError)"
proof (cases "nullish d")
  case True
  then show ?thesis
    by (simp add: start_tracking_def)
next
  case False
  with assms have "ToString rt (get d ''alertId'') = Inl TypeError
      \<or> parseFloat rt (get d ''alertLat'') = Inl TypeError
      \<or> parseFloat rt (get d ''alertLng'') = Inl TypeError"
    by (simp add: throws_ToString [symmetric] throws_parseFloat [symmetric])
  with False show ?thesis
    by (auto simp: start_tracking_def Let_def js_error_TypeError split: sum.splits)
qed

lemma start_tracking_returns:
  assumes "\<not> nullish d" and "\<not> throws rt (get d ''alertId'')"
    and "parseFloat rt (get d ''alertLat'') = Inr ala"
    and "parseFloat rt (get d ''alertLng'') = Inr aln"
  shows "start_tracking rt sid now d s =
           (s\<lparr>activeTracking :=
                Map_set sid (new_tracking now d (Map_get (connectedOfficers s) sid) ala aln)
                  (activeTracking s)\<rparr>,
            [(ToSocket sid, tracking_started True ''Tracking activated'' (get d ''alertId'')),
             (ToAll, tracking_update sid
                (new_tracking now d (Map_get (connectedOfficers s) sid) ala aln))],
            Returned)"
  using assms
  by (cases "ToString rt (get d ''alertId'')")
     (simp_all add: start_tracking_def Let_def throws_def)

text \<open>
  Against C7 as stated. The responder position is not the presence's whenever there is a
  presence: the officer on \<^verbatim>\<open>sock1\<close> has the presence position (0, 78.5), and the
  session that \<^verbatim>\<open>start_tracking\<close> creates has the position (11.1085, 78.5), whose
  latitude is the fallback one. And a session is not created for every event: for the
  payload \<^verbatim>\<open>{"alertId": {"toString": 1}}\<close> the handler throws at line 82, and there is no
  session, no acknowledgment and no broadcast.
\<close>

theorem C7_presence_position_counterexample:
  "Map_get (connectedOfficers equator_state) ''sock1'' =
     Some (sample_officer\<lparr>officer.lat := JNum (Fin 0 0), officer.lng := JNum (Fin 785 (- 1))\<rparr>)
 \<and> start_tracking sample_runtime ''sock1'' ''2026-01-01T08:05:00.000Z'' sample_track
       equator_state =
     (equator_state\<lparr>activeTracking :=
        [(''sock1'', sample_tracking\<lparr>officerLat := JNum (Fin 111085 (- 4)),
                                      officerLng := JNum (Fin 785 (- 1))\<rparr>)]\<rparr>,
      [(ToSocket ''sock1'',
        tracking_started True ''Tracking activated'' (JStr ''CAM-ALERT-2-k3x9q2m1z'')),
       (ToAll, tracking_update ''sock1''
          (sample_tracking\<lparr>officerLat := JNum (Fin 111085 (- 4)),
                            officerLng := JNum (Fin 785 (- 1))\<rparr>))],
      Returned)
 \<and> JNum (Fin 111085 (- 4)) \<noteq> JNum (Fin 0 0)
 \<and> start_tracking sample_runtime ''sock1'' ''2026-01-01T08:05:00.000Z''
       (JObj [(''alertId'', JObj [(''toString'', JNum (Fin 1 0))])]) equator_state =
     (equator_state, [], Threw TypeError)
 \<and> Map_get (activeTracking equator_state) ''sock1'' = None"
  by code_simp

text \<open>
  C7, amended. A \<^verbatim>\<open>start_tracking\<close> event whose payload is there and whose \<^verbatim>\<open>alertId\<close>,
  \<^verbatim>\<open>alertLat\<close> and \<^verbatim>\<open>alertLng\<close> can be converted to strings creates a session for the
  connection, replacing any earlier one and leaving those of the other connections,
  without looking at the alert collections (the alert id is taken as sent, the alert
  position as parsed). Each responder coordinate of the session is the presence's
  coordinate when the connection has a presence and that coordinate is truthy (not 0, not
  NaN, not missing), and the fallback coordinate (11.1085, 77.3411) otherwise. The
  acknowledgment goes to the originating connection only and a tracking update goes to
  all connections. For every other \<^verbatim>\<open>start_tracking\<close> event the handler throws a
  TypeError: the state is the one before and nothing is sent.
\<close>

theorem C7_start_tracking:
  "(\<not> nullish d \<and> \<not> throws rt (get d ''alertId'') \<and> \<not> throws rt (get d ''alertLat'')
      \<and> \<not> throws rt (get d ''alertLng'') \<longrightarrow>
      (\<exists>t. start_tracking rt sid now d s =
              (s\<lparr>activeTracking := Map_set sid t (activeTracking s)\<rparr>,
               [(ToSocket sid, tracking_started True ''Tracking activated'' (get d ''alertId'')),
                (ToAll, tracking_update sid t)],
               Returned)
          \<and> Map_get (Map_set sid t (activeTracking s)) sid = Some t
          \<and> (\<forall>other. other \<noteq> sid \<longrightarrow>
                Map_get (Map_set sid t (activeTracking s)) other =
                  Map_get (activeTracking s) other)
          \<and> alertId t = get d ''alertId''
          \<and> parseFloat rt (get d ''alertLat'') = Inr (alertLat t)
          \<and> parseFloat rt (get d ''alertLng'') = Inr (alertLng t)
          \<and> officerLat t =
              (case Map_get (connectedOfficers s) sid of
                 None \<Rightarrow> JNum fallback_lat
               | Some p \<Rightarrow> if truthy (officer.lat p) then officer.lat p else JNum fallback_lat)
          \<and> officerLng t =
              (case Map_get (connectedOfficers s) sid of
                 None \<Rightarrow> JNum fallback_lng
               | Some p \<Rightarrow> if truthy (officer.lng p) then officer.lng p else JNum fallback_lng)
          \<and> startTime t = now
          \<and> tracking.status t = ''tracking''))
 \<and> (nullish d \<or> throws rt (get d ''alertId'') \<or> throws rt (get d ''alertLat'')
      \<or> throws rt (get d ''alertLng'') \<longrightarrow>
      start_tracking rt sid now d s = (s, [], Threw TypeError))
 \<and> fallback_lat = Fin 111085 (- 4) \<and> fallback_lng = Fin 773411 (- 4)"
proof (intro conjI impI)
  assume h: "\<not> nullish d \<and> \<not> throws rt (get d ''alertId'') \<and> \<not> throws rt (get d ''alertLat'')
      \<and> \<not> throws rt (get d ''alertLng'')"
  then obtain ala aln where ala: "parseFloat rt (get d ''alertLat'') = Inr ala"
    and aln: "parseFloat rt (get d ''alertLng'') = Inr aln"
    unfolding throws_parseFloat
    by (cases "parseFloat rt (get d ''alertLat'')"; cases "parseFloat rt (get d ''alertLng'')")
       (auto simp: js_error_TypeError)
  from h have nd: "\<not> nullish d" and ni: "\<not> throws rt (get d ''alertId'')"
    by simp_all
  let ?t = "new_tracking now d (Map_get (connectedOfficers s) sid) ala aln"
  show "\<exists>t. start_tracking rt sid now d s =
              (s\<lparr>activeTracking := Map_set sid t (activeTracking s)\<rparr>,
               [(ToSocket sid, tracking_started True ''Tracking activated'' (get d ''alertId'')),
                (ToAll, tracking_update sid t)],
               Returned)
          \<and> Map_get (Map_set sid t (activeTracking s)) sid = Some t
          \<and> (\<forall>other. other \<noteq> sid \<longrightarrow>
                Map_get (Map_set sid t (activeTracking s)) other =
                  Map_get (activeTracking s) other)
          \<and> alertId t = get d ''alertId''
          \<and> parseFloat rt (get d ''alertLat'') = Inr (alertLat t)
          \<and> parseFloat rt (get d ''alertLng'') = Inr (alertLng t)
          \<and> officerLat t =
              (case Map_get (connectedOfficers s) sid of
                 None \<Rightarrow> JNum fallback_lat
               | Some p \<Rightarrow> if truthy (officer.lat p) then officer.lat p else JNum fallback_lat)
          \<and> officerLng t =
              (case Map_get (connectedOfficers s) sid of
                 None \<Rightarrow> JNum fallback_lng
               | Some p \<Rightarrow> if truthy (officer.lng p) then officer.lng p else JNum fallback_lng)
          \<and> startTime t = now
          \<and> tracking.status t = ''tracking''"
    apply (rule exI [of _ ?t])
    apply (intro conjI)
             apply (rule start_tracking_returns [OF nd ni ala aln])
            apply (simp add: Map_get_set)
           apply (simp add: Map_get_set)
          apply (simp add: new_tracking_def)
         apply (simp add: new_tracking_def ala)
        apply (simp add: new_tracking_def aln)
       apply (simp add: new_tracking_def opt_lat_def lor_def split: option.splits)
      apply (simp add: new_tracking_def opt_lng_def lor_def split: option.splits)
     apply (simp add: new_tracking_def)
    apply (simp add: new_tracking_def)
    done
next
  assume "nullish d \<or> throws rt (get d ''alertId'') \<or> throws rt (get d ''alertLat'')
      \<or> throws rt (get d ''alertLng'')"
  then show "start_tracking rt sid now d s = (s, [], Threw TypeError)"
    by (rule start_tracking_throws)
next
  show "fallback_lat = Fin 111085 (- 4)"
    by (simp add: fallback_lat_def)
next
  show "fallback_lng = Fin 773411 (- 4)"
    by (simp add: fallback_lng_def)
qed

text \<open>
  With no alert in the store and no presence, for an id that no alert has; for the officer
  on \<^verbatim>\<open>sock1\<close>, who already has a session; and for two events that make the handler
  throw: one with no payload and one whose \<^verbatim>\<open>alertLat\<close> is \<^verbatim>\<open>{"toString": 1}\<close>.
\<close>

theorem C7_start_tracking_witness:
  "\<not> nullish (JObj [(''alertId'', JStr ''NO-SUCH-ALERT'')])
 \<and> \<not> throws sample_runtime (JStr ''NO-SUCH-ALERT'')
 \<and> \<not> throws sample_runtime JUndefined
 \<and> (\<exists>t. start_tracking sample_runtime ''sock9'' ''2026-01-01T09:00:00.000Z''
             (JObj [(''alertId'', JStr ''NO-SUCH-ALERT'')]) initial_state =
            (initial_state\<lparr>activeTracking := [(''sock9'', t)]\<rparr>,
             [(ToSocket ''sock9'',
               tracking_started True ''Tracking activated'' (JStr ''NO-SUCH-ALERT'')),
              (ToAll, tracking_update ''sock9'' t)],
             Returned)
        \<and> alertId t = JStr ''NO-SUCH-ALERT''
        \<and> alertLat t = NaN
        \<and> officerLat t = JNum (Fin 111085 (- 4)) \<and> officerLng t = JNum (Fin 773411 (- 4)))
 \<and> \<not> nullish sample_track
 \<and> (\<exists>t. start_tracking sample_runtime ''sock1'' ''2026-01-01T09:00:00.000Z'' sample_track
             tracking_state =
            (tracking_state\<lparr>activeTracking := [(''sock1'', t)]\<rparr>,
             [(ToSocket ''sock1'',
               tracking_started True ''Tracking activated'' (JStr ''CAM-ALERT-2-k3x9q2m1z'')),
              (ToAll, tracking_update ''sock1'' t)],
             Returned)
        \<and> alertLat t = Fin 121 (- 1) \<and> alertLng t = Fin 772 (- 1)
        \<and> officerLat t = JNum (Fin 1101 (- 2)) \<and> officerLng t = JNum (Fin 7702 (- 2))
        \<and> startTime t = ''2026-01-01T09:00:00.000Z'')
 \<and> nullish JUndefined
 \<and> start_tracking sample_runtime ''sock1'' ''2026-01-01T09:00:00.000Z'' JUndefined tracking_state
     = (tracking_state, [], Threw TypeError)
 \<and> throws sample_runtime odd_object
 \<and> start_tracking sample_runtime ''sock1'' ''2026-01-01T09:00:00.000Z''
       (JObj [(''alertId'', JStr ''NO-SUCH-ALERT''), (''alertLat'', odd_object)]) tracking_state
     = (tracking_state, [], Threw TypeError)"
proof -
  let ?d = "JObj [(''alertId'', JStr ''NO-SUCH-ALERT'')]"
  let ?e = "JObj [(''alertId'', JStr ''NO-SUCH-ALERT''), (''alertLat'', odd_object)]"
  let ?now = "''2026-01-01T09:00:00.000Z''"
  note rt = sample_runtime_undefined
  have n: "\<not> nullish ?d" "\<not> nullish sample_track" "nullish JUndefined"
    by (simp_all add: nullish_def sample_track_def)
  have nt: "\<not> throws sample_runtime (JStr x)" "\<not> throws sample_runtime JUndefined" for x
    by (simp_all add: throws_def)
  have odd: "throws sample_runtime odd_object"
    by (simp add: throws_def)
  have h1: "\<not> nullish ?d \<and> \<not> throws sample_runtime (get ?d ''alertId'')
      \<and> \<not> throws sample_runtime (get ?d ''alertLat'')
      \<and> \<not> throws sample_runtime (get ?d ''alertLng'')"
    by (simp add: n nt)
  have h2: "\<not> nullish sample_track \<and> \<not> throws sample_runtime (get sample_track ''alertId'')
      \<and> \<not> throws sample_runtime (get sample_track ''alertLat'')
      \<and> \<not> throws sample_runtime (get sample_track ''alertLng'')"
    by (simp add: n nt) (simp add: sample_track_def nt)
  have h3: "nullish JUndefined \<or> throws sample_runtime (get JUndefined ''alertId'')
      \<or> throws sample_runtime (get JUndefined ''alertLat'')
      \<or> throws sample_runtime (get JUndefined ''alertLng'')"
    by (simp add: n)
  have h4: "nullish ?e \<or> throws sample_runtime (get ?e ''alertId'')
      \<or> throws sample_runtime (get ?e ''alertLat'')
      \<or> throws sample_runtime (get ?e ''alertLng'')"
    by (simp add: odd)
  note c1 = C7_start_tracking [where rt = sample_runtime and sid = "''sock9''" and now = ?now
      and d = ?d and s = initial_state, THEN conjunct1, THEN mp, OF h1]
  note c2 = C7_start_tracking [where rt = sample_runtime and sid = "''sock1''" and now = ?now
      and d = sample_track and s = tracking_state, THEN conjunct1, THEN mp, OF h2]
  note c3 = C7_start_tracking [where rt = sample_runtime and sid = "''sock1''" and now = ?now
      and d = JUndefined and s = tracking_state, THEN conjunct2, THEN conjunct1, THEN mp, OF h3]
  note c4 = C7_start_tracking [where rt = sample_runtime and sid = "''sock1''" and now = ?now
      and d = ?e and s = tracking_state, THEN conjunct2, THEN conjunct1, THEN mp, OF h4]
  have m: "Map_set ''sock9'' t (activeTracking initial_state) = [(''sock9'', t)]"
    "Map_set ''sock1'' t (activeTracking tracking_state) = [(''sock1'', t)]" for t
    by (simp_all add: Map_set_def initial_state_def tracking_state_def)
  have p: "Map_get (connectedOfficers initial_state) ''sock9'' = None"
    "Map_get (connectedOfficers tracking_state) ''sock1'' = Some sample_officer"
    by (simp_all add: Map_get_def initial_state_def tracking_state_def)
  have v: "parseFloat sample_runtime (get ?d ''alertLat'') = Inr NaN"
    "parseFloat sample_runtime (get sample_track ''alertLat'') = Inr (Fin 121 (- 1))"
    "parseFloat sample_runtime (get sample_track ''alertLng'') = Inr (Fin 772 (- 1))"
    "get sample_track ''alertId'' = JStr ''CAM-ALERT-2-k3x9q2m1z''"
    "get ?d ''alertId'' = JStr ''NO-SUCH-ALERT''"
    by code_simp+
  from c1 obtain t1 where t1:
    "start_tracking sample_runtime ''sock9'' ?now ?d initial_state =
       (initial_state\<lparr>activeTracking := Map_set ''sock9'' t1 (activeTracking initial_state)\<rparr>,
        [(ToSocket ''sock9'', tracking_started True ''Tracking activated'' (get ?d ''alertId'')),
         (ToAll, tracking_update ''sock9'' t1)],
        Returned)"
    "alertId t1 = get ?d ''alertId''"
    "parseFloat sample_runtime (get ?d ''alertLat'') = Inr (alertLat t1)"
    "officerLat t1 =
       (case Map_get (connectedOfficers initial_state) ''sock9'' of
          None \<Rightarrow> JNum fallback_lat
        | Some p \<Rightarrow> if truthy (officer.lat p) then officer.lat p else JNum fallback_lat)"
    "officerLng t1 =
       (case Map_get (connectedOfficers initial_state) ''sock9'' of
          None \<Rightarrow> JNum fallback_lng
        | Some p \<Rightarrow> if truthy (officer.lng p) then officer.lng p else JNum fallback_lng)"
    by (elim exE conjE)
  have w1: "\<exists>t. start_tracking sample_runtime ''sock9'' ?now ?d initial_state =
            (initial_state\<lparr>activeTracking := [(''sock9'', t)]\<rparr>,
             [(ToSocket ''sock9'',
               tracking_started True ''Tracking activated'' (JStr ''NO-SUCH-ALERT'')),
              (ToAll, tracking_update ''sock9'' t)],
             Returned)
        \<and> alertId t = JStr ''NO-SUCH-ALERT''
        \<and> alertLat t = NaN
        \<and> officerLat t = JNum (Fin 111085 (- 4)) \<and> officerLng t = JNum (Fin 773411 (- 4))"
    apply (rule exI [of _ t1])
    apply (intro conjI)
        apply (simp add: t1(1) m v(5))
       apply (simp add: t1(2) v(5))
    using t1(3) v(1) apply simp
     apply (simp add: t1(4) p fallback_lat_def)
    apply (simp add: t1(5) p fallback_lng_def)
    done
  from c2 obtain t2 where t2:
    "start_tracking sample_runtime ''sock1'' ?now sample_track tracking_state =
       (tracking_state\<lparr>activeTracking := Map_set ''sock1'' t2 (activeTracking tracking_state)\<rparr>,
        [(ToSocket ''sock1'',
          tracking_started True ''Tracking activated'' (get sample_track ''alertId'')),
         (ToAll, tracking_update ''sock1'' t2)],
        Returned)"
    "parseFloat sample_runtime (get sample_track ''alertLat'') = Inr (alertLat t2)"
    "parseFloat sample_runtime (get sample_track ''alertLng'') = Inr (alertLng t2)"
    "officerLat t2 =
       (case Map_get (connectedOfficers tracking_state) ''sock1'' of
          None \<Rightarrow> JNum fallback_lat
        | Some p \<Rightarrow> if truthy (officer.lat p) then officer.lat p else JNum fallback_lat)"
    "officerLng t2 =
       (case Map_get (connectedOfficers tracking_state) ''sock1'' of
          None \<Rightarrow> JNum fallback_lng
        | Some p \<Rightarrow> if truthy (officer.lng p) then officer.lng p else JNum fallback_lng)"
    "startTime t2 = ?now"
    by (elim exE conjE)
  have w2: "\<exists>t. start_tracking sample_runtime ''sock1'' ?now sample_track tracking_state =
            (tracking_state\<lparr>activeTracking := [(''sock1'', t)]\<rparr>,
             [(ToSocket ''sock1'',
               tracking_started True ''Tracking activated'' (JStr ''CAM-ALERT-2-k3x9q2m1z'')),
              (ToAll, tracking_update ''sock1'' t)],
             Returned)
        \<and> alertLat t = Fin 121 (- 1) \<and> alertLng t = Fin 772 (- 1)
        \<and> officerLat t = JNum (Fin 1101 (- 2)) \<and> officerLng t = JNum (Fin 7702 (- 2))
        \<and> startTime t = ?now"
    apply (rule exI [of _ t2])
    apply (intro conjI)
         apply (simp add: t2(1) m v(4))
    using t2(2) v(2) apply simp
    using t2(3) v(3) apply simp
      apply (simp add: t2(4) p sample_officer_def)
     apply (simp add: t2(5) p sample_officer_def)
    apply (rule t2(6))
    done
  from n(1) nt(1) [of "''NO-SUCH-ALERT''"] nt(2) w1 n(2) w2 n(3) c3 odd c4 show ?thesis
    by (intro conjI)
qed

section \<open>Location updates\<close>

lemma update_location_absent:
  assumes "Map_get (connectedOfficers s) sid = None"
  shows "update_location rt sid loc s = (s, [], Returned)"
  using assms by (simp add: update_location_def)

lemma update_location_unread:
  assumes "Map_get (connectedOfficers s) sid = Some p"
    and "nullish loc \<or> throws rt (get loc ''lat'')"
  shows "update_location rt sid loc s = (s, [], Threw TypeError)"
  using assms
  by (auto simp: update_location_def throws_parseFloat)

lemma update_location_half:
  assumes "Map_get (connectedOfficers s) sid = Some p" and "\<not> nullish loc"
    and "parseFloat rt (get loc ''lat'') = Inr la" and "throws rt (get loc ''lng'')"
  shows "update_location rt sid loc s =
           (s\<lparr>connectedOfficers :=
                Map_set sid (p\<lparr>officer.lat := JNum la\<rparr>) (connectedOfficers s)\<rparr>,
            [], Threw TypeError)"
  using assms
  by (simp add: update_location_def throws_parseFloat)

lemma update_location_tracking:
  assumes "Map_get (connectedOfficers s) sid = Some p" and "\<not> nullish loc"
    and "parseFloat rt (get loc ''lat'') = Inr la" and "parseFloat rt (get loc ''lng'') = Inr ln"
    and "Map_get (activeTracking s) sid = Some t"
  shows "update_location rt sid loc s =
     (s\<lparr>connectedOfficers :=
          Map_set sid (p\<lparr>officer.lat := JNum la, officer.lng := JNum ln\<rparr>) (connectedOfficers s),
        activeTracking :=
          Map_set sid (t\<lparr>officerLat := JNum la, officerLng := JNum ln\<rparr>) (activeTracking s)\<rparr>,
      [(ToAll, tracking_update sid (t\<lparr>officerLat := JNum la, officerLng := JNum ln\<rparr>))],
      Returned)"
  using assms by (simp add: update_location_def Let_def)


text \<open>
  Against C8 as stated (the two events update presence and session and the update is
  broadcast): the officer on \<^verbatim>\<open>sock1\<close> starts tracking and then sends
  \<^verbatim>\<open>{"lat": "11.5", "lng": {"toString": 1}}\<close>. The handler writes the presence's latitude
  (line 112) and throws at line 113: the presence's longitude and the session keep their
  old values, and no update is broadcast.
\<close>

theorem C8_half_update_counterexample:
  "socket_run sample_runtime
     [(''sock1'', StartTracking ''2026-01-01T08:05:00.000Z'' sample_track),
      (''sock1'', UpdateLocation
         (JObj [(''lat'', JStr ''11.5''), (''lng'', JObj [(''toString'', JNum (Fin 1 0))])]))]
     tracking_state =
   (tracking_state\<lparr>connectedOfficers :=
      [(''sock1'', sample_officer\<lparr>officer.lat := JNum (Fin 115 (- 1))\<rparr>)]\<rparr>,
    [(ToSocket ''sock1'',
      tracking_started True ''Tracking activated'' (JStr ''CAM-ALERT-2-k3x9q2m1z'')),
     (ToAll, tracking_update ''sock1'' sample_tracking)],
    Threw TypeError)
 \<and> officer.lng sample_officer = JNum (Fin 7702 (- 2))
 \<and> Map_get (activeTracking tracking_state) ''sock1'' = Some sample_tracking
 \<and> officerLat sample_tracking = JNum (Fin 1101 (- 2))"
  by code_simp

text \<open>
  C8, amended. For a connection that has a presence: \<^verbatim>\<open>start_tracking\<close> followed at once
  by \<^verbatim>\<open>update_location\<close>, both with a payload whose fields (\<^verbatim>\<open>alertId\<close>, \<^verbatim>\<open>alertLat\<close>,
  \<^verbatim>\<open>alertLng\<close>; \<^verbatim>\<open>lat\<close>, \<^verbatim>\<open>lng\<close>) can be converted to strings, leaves the presence and
  the new session with the coordinates parsed from the update, and the update is
  broadcast to all connections with the session as updated. For a connection with no
  presence, \<^verbatim>\<open>update_location\<close> changes nothing and emits nothing, whatever the payload.
  For a connection with a presence, \<^verbatim>\<open>update_location\<close> throws a TypeError and
  broadcasts nothing when the payload is missing or \<^verbatim>\<open>lat\<close> cannot be converted (nothing
  is written), and when \<^verbatim>\<open>lng\<close> cannot be converted (the presence's latitude is
  written, nothing else).
\<close>

theorem C8_start_tracking_then_update_location:
  "(\<forall>p la ln.
       Map_get (connectedOfficers s) sid = Some p
     \<and> \<not> nullish d \<and> \<not> throws rt (get d ''alertId'')
     \<and> \<not> throws rt (get d ''alertLat'') \<and> \<not> throws rt (get d ''alertLng'')
     \<and> \<not> nullish loc
     \<and> parseFloat rt (get loc ''lat'') = Inr la \<and> parseFloat rt (get loc ''lng'') = Inr ln \<longrightarrow>
      (\<exists>s2 t1 t2.
          fst (start_tracking rt sid now d s) =
            s\<lparr>activeTracking := Map_set sid t1 (activeTracking s)\<rparr>
        \<and> socket_run rt [(sid, StartTracking now d), (sid, UpdateLocation loc)] s =
            (s2,
             [(ToSocket sid, tracking_started True ''Tracking activated'' (get d ''alertId'')),
              (ToAll, tracking_update sid t1),
              (ToAll, tracking_update sid t2)],
             Returned)
        \<and> t2 = t1\<lparr>officerLat := JNum la, officerLng := JNum ln\<rparr>
        \<and> Map_get (activeTracking s2) sid = Some t2
        \<and> Map_get (connectedOfficers s2) sid =
            Some (p\<lparr>officer.lat := JNum la, officer.lng := JNum ln\<rparr>)
        \<and> cameraAlerts s2 = cameraAlerts s \<and> sosAlerts s2 = sosAlerts s))
 \<and> (Map_get (connectedOfficers s) sid = None \<longrightarrow>
      update_location rt sid loc s = (s, [], Returned))
 \<and> (\<forall>p. Map_get (connectedOfficers s) sid = Some p
        \<and> (nullish loc \<or> throws rt (get loc ''lat'')) \<longrightarrow>
      update_location rt sid loc s = (s, [], Threw TypeError))
 \<and> (\<forall>p la. Map_get (connectedOfficers s) sid = Some p \<and> \<not> nullish loc
        \<and> parseFloat rt (get loc ''lat'') = Inr la \<and> throws rt (get loc ''lng'') \<longrightarrow>
      update_location rt sid loc s =
        (s\<lparr>connectedOfficers :=
             Map_set sid (p\<lparr>officer.lat := JNum la\<rparr>) (connectedOfficers s)\<rparr>,
         [], Threw TypeError))"
proof (intro conjI allI impI)
  fix p la ln
  assume h: "Map_get (connectedOfficers s) sid = Some p
     \<and> \<not> nullish d \<and> \<not> throws rt (get d ''alertId'')
     \<and> \<not> throws rt (get d ''alertLat'') \<and> \<not> throws rt (get d ''alertLng'')
     \<and> \<not> nullish loc
     \<and> parseFloat rt (get loc ''lat'') = Inr la \<and> parseFloat rt (get loc ''lng'') = Inr ln"
  then obtain ala aln where ala: "parseFloat rt (get d ''alertLat'') = Inr ala"
    and aln: "parseFloat rt (get d ''alertLng'') = Inr aln"
    unfolding throws_parseFloat
    by (cases "parseFloat rt (get d ''alertLat'')"; cases "parseFloat rt (get d ''alertLng'')")
       (auto simp: js_error_TypeError)
  from h have pr: "Map_get (connectedOfficers s) sid = Some p"
    and nd: "\<not> nullish d" and ni: "\<not> throws rt (get d ''alertId'')"
    and nl: "\<not> nullish loc"
    and la: "parseFloat rt (get loc ''lat'') = Inr la"
    and ln: "parseFloat rt (get loc ''lng'') = Inr ln"
    by simp_all
  let ?new = "new_tracking now d (Map_get (connectedOfficers s) sid) ala aln"
  let ?mid = "s\<lparr>activeTracking := Map_set sid ?new (activeTracking s)\<rparr>"
  let ?upd = "?new\<lparr>officerLat := JNum la, officerLng := JNum ln\<rparr>"
  let ?fin = "?mid\<lparr>connectedOfficers :=
                   Map_set sid (p\<lparr>officer.lat := JNum la, officer.lng := JNum ln\<rparr>)
                     (connectedOfficers ?mid),
                 activeTracking := Map_set sid ?upd (activeTracking ?mid)\<rparr>"
  have first: "start_tracking rt sid now d s =
      (?mid, [(ToSocket sid, tracking_started True ''Tracking activated'' (get d ''alertId'')),
              (ToAll, tracking_update sid ?new)], Returned)"
    by (rule start_tracking_returns [OF nd ni ala aln])
  from pr have pres: "Map_get (connectedOfficers ?mid) sid = Some p"
    by simp
  have sess: "Map_get (activeTracking ?mid) sid = Some ?new"
    by (simp add: Map_get_set)
  have second: "update_location rt sid loc ?mid =
      (?fin, [(ToAll, tracking_update sid ?upd)], Returned)"
    by (rule update_location_tracking [OF pres nl la ln sess])
  have run: "socket_run rt [(sid, StartTracking now d), (sid, UpdateLocation loc)] s =
      (?fin, [(ToSocket sid, tracking_started True ''Tracking activated'' (get d ''alertId'')),
              (ToAll, tracking_update sid ?new), (ToAll, tracking_update sid ?upd)], Returned)"
    by (simp add: first second)
  show "\<exists>s2 t1 t2.
          fst (start_tracking rt sid now d s) =
            s\<lparr>activeTracking := Map_set sid t1 (activeTracking s)\<rparr>
        \<and> socket_run rt [(sid, StartTracking now d), (sid, UpdateLocation loc)] s =
            (s2,
             [(ToSocket sid, tracking_started True ''Tracking activated'' (get d ''alertId'')),
              (ToAll, tracking_update sid t1),
              (ToAll, tracking_update sid t2)],
             Returned)
        \<and> t2 = t1\<lparr>officerLat := JNum la, officerLng := JNum ln\<rparr>
        \<and> Map_get (activeTracking s2) sid = Some t2
        \<and> Map_get (connectedOfficers s2) sid =
            Some (p\<lparr>officer.lat := JNum la, officer.lng := JNum ln\<rparr>)
        \<and> cameraAlerts s2 = cameraAlerts s \<and> sosAlerts s2 = sosAlerts s"
    apply (rule exI [of _ ?fin], rule exI [of _ ?new], rule exI [of _ ?upd])
    apply (intro conjI)
          apply (simp add: first)
         apply (rule run)
        apply (rule refl)
       apply (simp add: Map_get_set)
      apply (simp add: Map_get_set)
     apply simp
    apply simp
    done
next
  assume "Map_get (connectedOfficers s) sid = None"
  then show "update_location rt sid loc s = (s, [], Returned)"
    by (rule update_location_absent)
next
  fix p
  assume "Map_get (connectedOfficers s) sid = Some p
        \<and> (nullish loc \<or> throws rt (get loc ''lat''))"
  then show "update_location rt sid loc s = (s, [], Threw TypeError)"
    by (intro update_location_unread [where p = p]) simp_all
next
  fix p la
  assume "Map_get (connectedOfficers s) sid = Some p \<and> \<not> nullish loc
        \<and> parseFloat rt (get loc ''lat'') = Inr la \<and> throws rt (get loc ''lng'')"
  then show "update_location rt sid loc s =
        (s\<lparr>connectedOfficers :=
             Map_set sid (p\<lparr>officer.lat := JNum la\<rparr>) (connectedOfficers s)\<rparr>,
         [], Threw TypeError)"
    by (intro update_location_half) simp_all
qed

text \<open>
  The officer on \<^verbatim>\<open>sock1\<close> starts tracking and reports (11.5, 77.25); a connection with
  no presence reports a position; the officer sends an update with no payload, and one
  whose longitude is \<^verbatim>\<open>{"toString": 1}\<close>.
\<close>

theorem C8_start_tracking_then_update_location_witness:
  "Map_get (connectedOfficers tracking_state) ''sock1'' = Some sample_officer
 \<and> \<not> nullish sample_track
 \<and> \<not> throws sample_runtime (get sample_track ''alertId'')
 \<and> \<not> throws sample_runtime (get sample_track ''alertLat'')
 \<and> \<not> throws sample_runtime (get sample_track ''alertLng'')
 \<and> \<not> nullish (JObj [(''lat'', JStr ''11.5''), (''lng'', JStr ''77.25'')])
 \<and> parseFloat sample_runtime (JStr ''11.5'') = Inr (Fin 115 (- 1))
 \<and> parseFloat sample_runtime (JStr ''77.25'') = Inr (Fin 7725 (- 2))
 \<and> (\<exists>s2. socket_run sample_runtime
             [(''sock1'', StartTracking ''2026-01-01T08:05:00.000Z'' sample_track),
              (''sock1'', UpdateLocation
                 (JObj [(''lat'', JStr ''11.5''), (''lng'', JStr ''77.25'')]))]
             tracking_state =
            (s2,
             [(ToSocket ''sock1'',
               tracking_started True ''Tracking activated'' (JStr ''CAM-ALERT-2-k3x9q2m1z'')),
              (ToAll, tracking_update ''sock1'' sample_tracking),
              (ToAll, tracking_update ''sock1''
                 (sample_tracking\<lparr>officerLat := JNum (Fin 115 (- 1)),
                                   officerLng := JNum (Fin 7725 (- 2))\<rparr>))],
             Returned)
         \<and> Map_get (activeTracking s2) ''sock1'' =
             Some (sample_tracking\<lparr>officerLat := JNum (Fin 115 (- 1)),
                                    officerLng := JNum (Fin 7725 (- 2))\<rparr>)
         \<and> Map_get (connectedOfficers s2) ''sock1'' =
             Some (sample_officer\<lparr>officer.lat := JNum (Fin 115 (- 1)),
                                   officer.lng := JNum (Fin 7725 (- 2))\<rparr>))
 \<and> Map_get (connectedOfficers tracking_state) ''sock9'' = None
 \<and> update_location sample_runtime ''sock9'' (JObj [(''lat'', JStr ''11.5'')]) tracking_state =
     (tracking_state, [], Returned)
 \<and> nullish JUndefined
 \<and> update_location sample_runtime ''sock1'' JUndefined tracking_state =
     (tracking_state, [], Threw TypeError)
 \<and> throws sample_runtime odd_object
 \<and> update_location sample_runtime ''sock1''
       (JObj [(''lat'', JStr ''11.5''), (''lng'', odd_object)]) tracking_state =
     (tracking_state\<lparr>connectedOfficers :=
        Map_set ''sock1'' (sample_officer\<lparr>officer.lat := JNum (Fin 115 (- 1))\<rparr>)
          (connectedOfficers tracking_state)\<rparr>,
      [], Threw TypeError)"
proof -
  let ?loc = "JObj [(''lat'', JStr ''11.5''), (''lng'', JStr ''77.25'')]"
  let ?half = "JObj [(''lat'', JStr ''11.5''), (''lng'', odd_object)]"
  let ?now = "''2026-01-01T08:05:00.000Z''"
  have p: "Map_get (connectedOfficers tracking_state) ''sock1'' = Some sample_officer"
    and q: "Map_get (connectedOfficers tracking_state) ''sock9'' = None"
    by (simp_all add: Map_get_def tracking_state_def)
  have n: "\<not> nullish sample_track" "\<not> nullish ?loc" "nullish JUndefined" "\<not> nullish ?half"
    by (simp_all add: nullish_def sample_track_def)
  have nt: "\<not> throws sample_runtime (get sample_track ''alertId'')"
    "\<not> throws sample_runtime (get sample_track ''alertLat'')"
    "\<not> throws sample_runtime (get sample_track ''alertLng'')"
    by (simp_all add: sample_track_def throws_def)
  have odd: "throws sample_runtime odd_object"
    by (simp add: throws_def)
  have v: "parseFloat sample_runtime (JStr ''11.5'') = Inr (Fin 115 (- 1))"
    "parseFloat sample_runtime (JStr ''77.25'') = Inr (Fin 7725 (- 2))"
    "get sample_track ''alertId'' = JStr ''CAM-ALERT-2-k3x9q2m1z''"
    by code_simp+
  have started: "activeTracking (fst (start_tracking sample_runtime ''sock1'' ?now sample_track
                   tracking_state)) = [(''sock1'', sample_tracking)]"
    by code_simp
  have h1: "Map_get (connectedOfficers tracking_state) ''sock1'' = Some sample_officer
     \<and> \<not> nullish sample_track \<and> \<not> throws sample_runtime (get sample_track ''alertId'')
     \<and> \<not> throws sample_runtime (get sample_track ''alertLat'')
     \<and> \<not> throws sample_runtime (get sample_track ''alertLng'')
     \<and> \<not> nullish ?loc
     \<and> parseFloat sample_runtime (get ?loc ''lat'') = Inr (Fin 115 (- 1))
     \<and> parseFloat sample_runtime (get ?loc ''lng'') = Inr (Fin 7725 (- 2))"
    using p n(1,2) nt v(1,2) by simp
  have h3: "Map_get (connectedOfficers tracking_state) ''sock1'' = Some sample_officer
        \<and> (nullish JUndefined \<or> throws sample_runtime (get JUndefined ''lat''))"
    using p n(3) by simp
  have h4: "Map_get (connectedOfficers tracking_state) ''sock1'' = Some sample_officer
        \<and> \<not> nullish ?half
        \<and> parseFloat sample_runtime (get ?half ''lat'') = Inr (Fin 115 (- 1))
        \<and> throws sample_runtime (get ?half ''lng'')"
    using p n(4) v(1) odd by simp
  note c1 = C8_start_tracking_then_update_location [where rt = sample_runtime
      and s = tracking_state and sid = "''sock1''" and d = sample_track and loc = ?loc
      and now = ?now, THEN conjunct1, rule_format, OF h1]
  note c2 = C8_start_tracking_then_update_location [where rt = sample_runtime
      and s = tracking_state and sid = "''sock9''" and loc = "JObj [(''lat'', JStr ''11.5'')]",
      THEN conjunct2, THEN conjunct1, THEN mp, OF q]
  note c3 = C8_start_tracking_then_update_location [where rt = sample_runtime
      and s = tracking_state and sid = "''sock1''" and loc = JUndefined,
      THEN conjunct2, THEN conjunct2, THEN conjunct1, rule_format, OF h3]
  note c4 = C8_start_tracking_then_update_location [where rt = sample_runtime
      and s = tracking_state and sid = "''sock1''" and loc = ?half,
      THEN conjunct2, THEN conjunct2, THEN conjunct2, rule_format, OF h4]
  from c1 obtain s2 t1 t2 where r:
    "fst (start_tracking sample_runtime ''sock1'' ?now sample_track tracking_state) =
       tracking_state\<lparr>activeTracking := Map_set ''sock1'' t1 (activeTracking tracking_state)\<rparr>"
    "socket_run sample_runtime
       [(''sock1'', StartTracking ?now sample_track), (''sock1'', UpdateLocation ?loc)]
       tracking_state =
     (s2,
      [(ToSocket ''sock1'',
        tracking_started True ''Tracking activated'' (get sample_track ''alertId'')),
       (ToAll, tracking_update ''sock1'' t1),
       (ToAll, tracking_update ''sock1'' t2)],
      Returned)"
    "t2 = t1\<lparr>officerLat := JNum (Fin 115 (- 1)), officerLng := JNum (Fin 7725 (- 2))\<rparr>"
    "Map_get (activeTracking s2) ''sock1'' = Some t2"
    "Map_get (connectedOfficers s2) ''sock1'' =
       Some (sample_officer\<lparr>officer.lat := JNum (Fin 115 (- 1)),
                             officer.lng := JNum (Fin 7725 (- 2))\<rparr>)"
    by (elim exE conjE)
  have "activeTracking (fst (start_tracking sample_runtime ''sock1'' ?now sample_track
          tracking_state)) = [(''sock1'', t1)]"
    unfolding r(1) by (simp add: Map_set_def tracking_state_def)
  with started have t1: "t1 = sample_tracking"
    by simp
  have w1: "\<exists>s2. socket_run sample_runtime
             [(''sock1'', StartTracking ?now sample_track), (''sock1'', UpdateLocation ?loc)]
             tracking_state =
            (s2,
             [(ToSocket ''sock1'',
               tracking_started True ''Tracking activated'' (JStr ''CAM-ALERT-2-k3x9q2m1z'')),
              (ToAll, tracking_update ''sock1'' sample_tracking),
              (ToAll, tracking_update ''sock1''
                 (sample_tracking\<lparr>officerLat := JNum (Fin 115 (- 1)),
                                   officerLng := JNum (Fin 7725 (- 2))\<rparr>))],
             Returned)
         \<and> Map_get (activeTracking s2) ''sock1'' =
             Some (sample_tracking\<lparr>officerLat := JNum (Fin 115 (- 1)),
                                    officerLng := JNum (Fin 7725 (- 2))\<rparr>)
         \<and> Map_get (connectedOfficers s2) ''sock1'' =
             Some (sample_officer\<lparr>officer.lat := JNum (Fin 115 (- 1)),
                                   officer.lng := JNum (Fin 7725 (- 2))\<rparr>)"
    apply (rule exI [of _ s2])
    apply (intro conjI)
      apply (rule r(2) [unfolded r(3) t1 v(3)])
     apply (rule r(4) [unfolded r(3) t1])
    apply (rule r(5))
    done
  from p n(1) nt n(2) v(1,2) w1 q c2 n(3) c3 odd c4 show ?thesis
    by (intro conjI)
qed

section \<open>Push-channel events with missing or malformed fields\<close>





end
